theory Spec2Isabelle
  imports Complex_Main "HOL-Library.Char_ord" "HOL-Library.List_Lexorder"
begin

section \<open>Decimal numbers of the default arithmetic context\<close>

text \<open>
  \<^verbatim>\<open>instrument.py\<close> computes with Python's \<^verbatim>\<open>decimal.Decimal\<close>: a sign, a coefficient
  (a string of decimal digits, here the natural number they spell) and an exponent, or
  one of the special values. The module never installs a context of its own, so every
  operation runs in the default one: 28 significant digits, rounding half to even,
  exponents between -999999 and 999999, and the signals InvalidOperation and Overflow
  trapped (raised as exceptions).
\<close>

datatype Decimal =
    Finite (sign: bool) (coefficient: nat) (exponent: int)
  | Infinity bool
  | NaN bool
  | sNaN bool

definition prec :: nat where
  "prec = 28"

definition Emax :: int where
  "Emax = 999999"

definition Emin :: int where
  "Emin = - 999999"

definition Etiny :: int where
  "Etiny = Emin - int prec + 1"

definition Etop :: int where
  "Etop = Emax - int prec + 1"

text \<open>
  Modelled from the spec: the enumeration \<^verbatim>\<open>Currency\<close> of \<^verbatim>\<open>bankroll/model/cash.py\<close>, which
  is not among the sources. The specification calls it an enumerated monetary unit with
  a name, an identity value given by its symbolic code. A member of an enumeration is
  known by its name, so a currency is modelled as that name.
\<close>

datatype Currency = Currency (name: string)

text \<open>
  Every exception that construction of an instrument can raise. The \<^verbatim>\<open>ValueError\<close>s are
  told apart by the place that raises them, each carrying the value its message
  interpolates.
\<close>

datatype message =
    Expected_nonempty_symbol
      \<comment> \<open>\<^verbatim>\<open>'Expected non-empty symbol for instrument'\<close>\<close>
  | Expected_currency
      \<comment> \<open>\<^verbatim>\<open>'Expected currency for instrument'\<close>\<close>
  | Expected_bond_CUSIP string
      \<comment> \<open>\<^verbatim>\<open>f'Expected symbol to be a bond CUSIP: {self.symbol}'\<close>\<close>
  | Expected_nonempty_underlying
      \<comment> \<open>\<^verbatim>\<open>'Expected non-empty underlying symbol for Option'\<close>\<close>
  | Expected_positive_strike Decimal
      \<comment> \<open>\<^verbatim>\<open>f'Expected positive strike price: {strike}'\<close>\<close>
  | Expected_positive_multiplier Decimal
      \<comment> \<open>\<^verbatim>\<open>f'Expected positive multiplier: {multiplier}'\<close>\<close>
  | Forex_different_currencies "Currency option" "Currency option"
      \<comment> \<open>\<^verbatim>\<open>f'Forex pair must be composed of different currencies, got ...'\<close>\<close>

datatype error =
    ValueError message
  | InvalidOperation
  | Overflow
  | AttributeError

text \<open>\<^verbatim>\<open>len(self._int)\<close>: the number of digits of the coefficient; zero has one digit.\<close>

fun ndigits :: "nat \<Rightarrow> nat" where
  "ndigits n = (if n < 10 then 1 else Suc (ndigits (n div 10)))"

declare ndigits.simps [simp del]

text \<open>\<^verbatim>\<open>Decimal.adjusted()\<close>: the exponent of the most significant digit.\<close>

definition adjusted :: "nat \<Rightarrow> int \<Rightarrow> int" where
  "adjusted c e = int (ndigits c) + e - 1"

definition is_finite :: "Decimal \<Rightarrow> bool" where
  "is_finite d = (case d of Finite s c e \<Rightarrow> True | _ \<Rightarrow> False)"

text \<open>
  \<^verbatim>\<open>d <= 0\<close>. The source evaluates it only behind \<^verbatim>\<open>not d.is_finite() or\<close>, that is, on
  finite values; on a NaN the comparison itself would raise, which that guard prevents.
\<close>

definition le_zero :: "Decimal \<Rightarrow> bool" where
  "le_zero d = (case d of Finite s c e \<Rightarrow> s \<or> c = 0 | Infinity s \<Rightarrow> s | _ \<Rightarrow> False)"

text \<open>
  Rounding half to even while dropping the last \<open>k\<close> digits of a coefficient: the kept
  digits go up by one when the dropped ones are more than half a unit, or exactly half
  a unit with an odd last kept digit.
\<close>

definition round_half_even :: "nat \<Rightarrow> nat \<Rightarrow> nat" where
  "round_half_even c k =
     (let p = 10 ^ k; q = c div p; r = c mod p
      in if p < 2 * r \<or> (2 * r = p \<and> odd q) then q + 1 else q)"

text \<open>
  \<^verbatim>\<open>Decimal._rescale(exp, ROUND_HALF_EVEN)\<close> on a finite value: the same number written
  with exponent \<open>x\<close>, padded with zeros when that is exact and rounded otherwise.
\<close>

definition rescale :: "bool \<Rightarrow> nat \<Rightarrow> int \<Rightarrow> int \<Rightarrow> Decimal" where
  "rescale s c e x =
     (if c = 0 then Finite s 0 x
      else if x \<le> e then Finite s (c * 10 ^ nat (e - x)) x
      else Finite s (round_half_even c (nat (x - e))) x)"

text \<open>
  \<^verbatim>\<open>Decimal._fix(context)\<close>: the result of an arithmetic operation is brought into the
  context. A zero has its exponent clamped; a value above \<open>Emax\<close> overflows; a
  coefficient of more than \<open>prec\<close> digits, or a subnormal value, is rounded half to even.
\<close>

definition fix_finite :: "bool \<Rightarrow> nat \<Rightarrow> int \<Rightarrow> error + Decimal" where
  "fix_finite s c e =
     (if c = 0 then Inr (Finite s 0 (min (max e Etiny) Emax))
      else
        let exp_min = int (ndigits c) + e - int prec in
        if Etop < exp_min then Inl Overflow
        else
          let exp_min = max exp_min Etiny in
          if e < exp_min then
            let coeff = round_half_even c (nat (exp_min - e)) in
            if prec < ndigits coeff
            then (if Etop < exp_min + 1 then Inl Overflow
                  else Inr (Finite s (coeff div 10) (exp_min + 1)))
            else Inr (Finite s coeff exp_min)
          else Inr (Finite s c e))"

text \<open>
  \<^verbatim>\<open>Decimal.quantize(exp, rounding=ROUND_HALF_EVEN)\<close>: the value rounded to the exponent
  of the second operand. The result must fit in \<open>prec\<close> digits, otherwise the operation
  is invalid.
\<close>

definition quantize :: "Decimal \<Rightarrow> Decimal \<Rightarrow> error + Decimal" where
  "quantize d q =
     (case (d, q) of
        (Finite s c e, Finite qs qc x) \<Rightarrow>
          if \<not> (Etiny \<le> x \<and> x \<le> Emax) then Inl InvalidOperation
          else if c = 0 then fix_finite s 0 x
          else if Emax < adjusted c e then Inl InvalidOperation
          else if int prec < adjusted c e - x + 1 then Inl InvalidOperation
          else
            (case rescale s c e x of
               Finite s' c' x' \<Rightarrow>
                 if Emax < adjusted c' x' then Inl InvalidOperation
                 else if prec < ndigits c' then Inl InvalidOperation
                 else fix_finite s' c' x'
             | ans \<Rightarrow> Inr ans)
      | (sNaN s, _) \<Rightarrow> Inl InvalidOperation
      | (_, sNaN s) \<Rightarrow> Inl InvalidOperation
      | (NaN s, _) \<Rightarrow> Inr (NaN s)
      | (_, NaN s) \<Rightarrow> Inr (NaN s)
      | (Infinity s, Infinity qs) \<Rightarrow> Inr (Infinity s)
      | _ \<Rightarrow> Inl InvalidOperation)"

text \<open>
  \<^verbatim>\<open>Decimal.__mul__\<close>: the exact product of two finite values, brought into the context.
\<close>

definition mul :: "Decimal \<Rightarrow> Decimal \<Rightarrow> error + Decimal" where
  "mul a b =
     (case (a, b) of
        (Finite s1 c1 e1, Finite s2 c2 e2) \<Rightarrow> fix_finite (s1 \<noteq> s2) (c1 * c2) (e1 + e2)
      | (sNaN s, _) \<Rightarrow> Inl InvalidOperation
      | (_, sNaN s) \<Rightarrow> Inl InvalidOperation
      | (NaN s, _) \<Rightarrow> Inr (NaN s)
      | (_, NaN s) \<Rightarrow> Inr (NaN s)
      | (Infinity s1, Finite s2 c2 e2) \<Rightarrow>
          if c2 = 0 then Inl InvalidOperation else Inr (Infinity (s1 \<noteq> s2))
      | (Finite s1 c1 e1, Infinity s2) \<Rightarrow>
          if c1 = 0 then Inl InvalidOperation else Inr (Infinity (s1 \<noteq> s2))
      | (Infinity s1, Infinity s2) \<Rightarrow> Inr (Infinity (s1 \<noteq> s2)))"

text \<open>\<^verbatim>\<open>Decimal(n)\<close> of a non-negative Python integer.\<close>

definition Decimal_of_nat :: "nat \<Rightarrow> Decimal" where
  "Decimal_of_nat n = Finite False n 0"

section \<open>Text formatting\<close>

definition digit_char :: "nat \<Rightarrow> char" where
  "digit_char d = ''0123456789'' ! d"

text \<open>\<^verbatim>\<open>str(n)\<close> of a non-negative integer: its decimal digits.\<close>

fun str_nat :: "nat \<Rightarrow> string" where
  "str_nat n = (if n < 10 then [digit_char n] else str_nat (n div 10) @ [digit_char (n mod 10)])"

declare str_nat.simps [simp del]

text \<open>Padding on the left with zeros up to a minimum width; a longer text is kept whole.\<close>

definition zfill :: "nat \<Rightarrow> string \<Rightarrow> string" where
  "zfill w s = replicate (w - length s) (CHR ''0'') @ s"

text \<open>
  \<^verbatim>\<open>f"{s:6}"\<close> on a string: left-justified in a field of at least \<open>w\<close> characters, filled
  with spaces. The width is a minimum: a longer string is not cut.
\<close>

definition ljust :: "nat \<Rightarrow> string \<Rightarrow> string" where
  "ljust w s = s @ replicate (w - length s) (CHR '' '')"

text \<open>
  \<^verbatim>\<open>format(d, '08.0f')\<close> on a Decimal: the value is rescaled to exponent 0 with the
  context's rounding (half to even) and its digits are padded with zeros behind the
  sign to a width of at least 8. A special value is printed by name.
\<close>

definition sign_str :: "bool \<Rightarrow> string" where
  "sign_str s = (if s then ''-'' else '''')"

definition format_08_0f :: "Decimal \<Rightarrow> string" where
  "format_08_0f d =
     (case d of
        Finite s c e \<Rightarrow> sign_str s @ zfill (8 - length (sign_str s)) (str_nat (coefficient (rescale s c e 0)))
      | Infinity s \<Rightarrow> sign_str s @ zfill (8 - length (sign_str s)) ''Infinity''
      | NaN s \<Rightarrow> sign_str s @ zfill (8 - length (sign_str s)) ''NaN''
      | sNaN s \<Rightarrow> sign_str s @ zfill (8 - length (sign_str s)) ''sNaN'')"

text \<open>A calendar date, and \<^verbatim>\<open>date.strftime('%y%m%d')\<close>.\<close>

record date =
  year :: nat
  month :: nat
  day :: nat

definition is_leap :: "nat \<Rightarrow> bool" where
  "is_leap y = (y mod 4 = 0 \<and> (y mod 100 \<noteq> 0 \<or> y mod 400 = 0))"

definition days_in_month :: "nat \<Rightarrow> nat \<Rightarrow> nat" where
  "days_in_month y m =
     (if m = 2 then (if is_leap y then 29 else 28)
      else if m \<in> {4, 6, 9, 11} then 30 else 31)"

text \<open>The values \<^verbatim>\<open>datetime.date\<close> can hold.\<close>

definition valid_date :: "date \<Rightarrow> bool" where
  "valid_date d =
     (1 \<le> year d \<and> year d \<le> 9999 \<and> 1 \<le> month d \<and> month d \<le> 12 \<and>
      1 \<le> day d \<and> day d \<le> days_in_month (year d) (month d))"

definition strftime_ymd :: "date \<Rightarrow> string" where
  "strftime_ymd d =
     zfill 2 (str_nat (year d mod 100)) @ zfill 2 (str_nat (month d)) @ zfill 2 (str_nat (day d))"

section \<open>Instruments\<close>

datatype OptionType = PUT | CALL

fun OptionType_value :: "OptionType \<Rightarrow> char" where
  "OptionType_value PUT = CHR ''P''"
| "OptionType_value CALL = CHR ''C''"

text \<open>
  An instance of one of the concrete classes. \<open>symbol\<close> and \<open>currency\<close> are the two
  dataclass fields of \<^verbatim>\<open>Instrument\<close>; the others are the private attributes that the
  subclasses set in \<^verbatim>\<open>__init__\<close> and read back through properties.
\<close>

datatype Instrument =
    Stock (symbol: string) (currency: Currency)
  | Bond (symbol: string) (currency: Currency)
  | Option (symbol: string) (currency: Currency) (underlying: string)
      (optionType: OptionType) (expiration: date) (strike: Decimal) (stored_multiplier: Decimal)
  | FutureOption (symbol: string) (currency: Currency) (underlying: string)
      (optionType: OptionType) (expiration: date) (strike: Decimal) (stored_multiplier: Decimal)
  | Future (symbol: string) (currency: Currency) (stored_multiplier: Decimal) (expiration: date)
  | Forex (symbol: string) (currency: Currency) (baseCurrency: Currency)

datatype InstrumentClass =
  StockClass | BondClass | OptionClass | FutureOptionClass | FutureClass | ForexClass

fun class_of :: "Instrument \<Rightarrow> InstrumentClass" where
  "class_of (Stock s c) = StockClass"
| "class_of (Bond s c) = BondClass"
| "class_of (Option s c u t d k m) = OptionClass"
| "class_of (FutureOption s c u t d k m) = FutureOptionClass"
| "class_of (Future s c m d) = FutureClass"
| "class_of (Forex s c b) = ForexClass"

text \<open>\<^verbatim>\<open>Instrument.quantizeMultiplier\<close> and \<^verbatim>\<open>Option.quantizeStrike\<close>.\<close>

definition multiplierQuantization :: Decimal where
  "multiplierQuantization = Finite False 1 (- 1)"

definition quantizeMultiplier :: "Decimal \<Rightarrow> error + Decimal" where
  "quantizeMultiplier m = quantize m multiplierQuantization"

definition strikeQuantization :: Decimal where
  "strikeQuantization = Finite False 1 (- 3)"

definition quantizeStrike :: "Decimal \<Rightarrow> error + Decimal" where
  "quantizeStrike k = quantize k strikeQuantization"

text \<open>
  \<^verbatim>\<open>Instrument.__post_init__\<close>, run by the generated \<^verbatim>\<open>__init__\<close> once both fields are
  set. An absent currency is \<^verbatim>\<open>None\<close>; every member of the enumeration is truthy.
\<close>

definition Instrument_post_init :: "string \<Rightarrow> Currency option \<Rightarrow> error + (string \<times> Currency)" where
  "Instrument_post_init symb cur =
     (if symb = [] then Inl (ValueError Expected_nonempty_symbol)
      else case cur of
             None \<Rightarrow> Inl (ValueError Expected_currency)
           | Some c \<Rightarrow> Inr (symb, c))"

definition Stock_init :: "string \<Rightarrow> Currency option \<Rightarrow> error + Instrument" where
  "Stock_init symb cur =
     (case Instrument_post_init symb cur of
        Inl err \<Rightarrow> Inl err
      | Inr (s, c) \<Rightarrow> Inr (Stock s c))"

text \<open>
  \<^verbatim>\<open>Bond.regexCUSIP = r'^[0-9]{3}[0-9A-Z]{5}[0-9]$'\<close> as the list of its character classes,
  one per position. \<^verbatim>\<open>re.match\<close> anchors the pattern at the start of the string; the
  final \<^verbatim>\<open>$\<close> matches at the end of the string and also just before a newline that ends it.
\<close>

definition is_0_9 :: "char \<Rightarrow> bool" where
  "is_0_9 c = (48 \<le> (of_char c :: nat) \<and> (of_char c :: nat) \<le> 57)"

definition is_A_Z :: "char \<Rightarrow> bool" where
  "is_A_Z c = (65 \<le> (of_char c :: nat) \<and> (of_char c :: nat) \<le> 90)"

definition regexCUSIP :: "(char \<Rightarrow> bool) list" where
  "regexCUSIP =
     replicate 3 is_0_9 @ replicate 5 (\<lambda>c. is_0_9 c \<or> is_A_Z c) @ replicate 1 is_0_9"

definition re_match :: "(char \<Rightarrow> bool) list \<Rightarrow> string \<Rightarrow> bool" where
  "re_match classes s =
     (list_all2 (\<lambda>p c. p c) classes s \<or>
      (s \<noteq> [] \<and> last s = CHR 0x0A \<and> list_all2 (\<lambda>p c. p c) classes (butlast s)))"

definition validBondSymbol :: "string \<Rightarrow> bool" where
  "validBondSymbol symb = re_match regexCUSIP symb"

text \<open>
  \<^verbatim>\<open>Bond(symbol, currency, validateSymbol)\<close>: the generated \<^verbatim>\<open>__init__\<close> sets the two
  fields and calls \<^verbatim>\<open>Bond.__post_init__(validateSymbol)\<close>, which checks the CUSIP first
  and then runs the base class's checks.
\<close>

definition Bond_init :: "string \<Rightarrow> Currency option \<Rightarrow> bool \<Rightarrow> error + Instrument" where
  "Bond_init symb cur validateSymbol =
     (if validateSymbol \<and> \<not> validBondSymbol symb
      then Inl (ValueError (Expected_bond_CUSIP symb))
      else case Instrument_post_init symb cur of
             Inl err \<Rightarrow> Inl err
           | Inr (s, c) \<Rightarrow> Inr (Bond s c))"

text \<open>
  The symbol that \<^verbatim>\<open>Option.__init__\<close> derives when none is given:
  \<^verbatim>\<open>f"{underlying:6}{expiration.strftime('%y%m%d')}{optionType.value}{(strike * 1000):08.0f}"\<close>.
  The strike is the argument as passed, not the quantized one; the product is taken in
  the context and may overflow.
\<close>

definition OCC_symbol :: "string \<Rightarrow> date \<Rightarrow> OptionType \<Rightarrow> Decimal \<Rightarrow> error + string" where
  "OCC_symbol u d t k =
     (case mul k (Decimal_of_nat 1000) of
        Inl err \<Rightarrow> Inl err
      | Inr p \<Rightarrow> Inr (ljust 6 u @ strftime_ymd d @ [OptionType_value t] @ format_08_0f p))"

text \<open>
  \<^verbatim>\<open>Option.__init__\<close>. The first argument stands for the class of the instance under
  construction, \<^verbatim>\<open>Option\<close> itself or its subclass \<^verbatim>\<open>FutureOption\<close>, which runs the same
  code through \<^verbatim>\<open>super().__init__\<close>.
\<close>

definition Option_init_as ::
  "(string \<Rightarrow> Currency \<Rightarrow> string \<Rightarrow> OptionType \<Rightarrow> date \<Rightarrow> Decimal \<Rightarrow> Decimal \<Rightarrow> Instrument) \<Rightarrow>
   string \<Rightarrow> Currency option \<Rightarrow> OptionType \<Rightarrow> date \<Rightarrow> Decimal \<Rightarrow> Decimal \<Rightarrow> string option \<Rightarrow>
   error + Instrument" where
  "Option_init_as cls u cur t d k m symb =
     (if u = [] then Inl (ValueError Expected_nonempty_underlying)
      else if \<not> is_finite k \<or> le_zero k then Inl (ValueError (Expected_positive_strike k))
      else if \<not> is_finite m \<or> le_zero m then Inl (ValueError (Expected_positive_multiplier m))
      else
        case quantizeStrike k of
          Inl err \<Rightarrow> Inl err
        | Inr qk \<Rightarrow>
           (case quantizeMultiplier m of
              Inl err \<Rightarrow> Inl err
            | Inr qm \<Rightarrow>
               (case (case symb of None \<Rightarrow> OCC_symbol u d t k | Some s \<Rightarrow> Inr s) of
                  Inl err \<Rightarrow> Inl err
                | Inr s \<Rightarrow>
                   (case Instrument_post_init s cur of
                      Inl err \<Rightarrow> Inl err
                    | Inr (s', c) \<Rightarrow> Inr (cls s' c u t d qk qm)))))"

definition Option_init ::
  "string \<Rightarrow> Currency option \<Rightarrow> OptionType \<Rightarrow> date \<Rightarrow> Decimal \<Rightarrow> Decimal \<Rightarrow> string option \<Rightarrow>
   error + Instrument" where
  "Option_init u cur t d k m symb = Option_init_as Option u cur t d k m symb"

text \<open>The default of the parameter \<^verbatim>\<open>multiplier\<close> of \<^verbatim>\<open>Option.__init__\<close>: \<^verbatim>\<open>Decimal(100)\<close>.\<close>

definition default_multiplier :: Decimal where
  "default_multiplier = Decimal_of_nat 100"

definition FutureOption_init ::
  "string \<Rightarrow> string \<Rightarrow> Currency option \<Rightarrow> OptionType \<Rightarrow> date \<Rightarrow> Decimal \<Rightarrow> Decimal \<Rightarrow>
   error + Instrument" where
  "FutureOption_init symb u cur t d k m = Option_init_as FutureOption u cur t d k m (Some symb)"

definition Future_init :: "string \<Rightarrow> Currency option \<Rightarrow> Decimal \<Rightarrow> date \<Rightarrow> error + Instrument" where
  "Future_init symb cur m d =
     (if \<not> is_finite m \<or> le_zero m then Inl (ValueError (Expected_positive_multiplier m))
      else
        case quantizeMultiplier m of
          Inl err \<Rightarrow> Inl err
        | Inr qm \<Rightarrow>
           (case Instrument_post_init symb cur of
              Inl err \<Rightarrow> Inl err
            | Inr (s, c) \<Rightarrow> Inr (Future s c qm d)))"

text \<open>
  \<^verbatim>\<open>Forex.__init__\<close>. The two currencies are compared before either is used, so two absent
  ones count as identical; reading \<^verbatim>\<open>.name\<close> of an absent one raises \<^verbatim>\<open>AttributeError\<close>.
\<close>

definition Forex_init :: "Currency option \<Rightarrow> Currency option \<Rightarrow> error + Instrument" where
  "Forex_init base quote =
     (if base = quote then Inl (ValueError (Forex_different_currencies base quote))
      else
        case base of
          None \<Rightarrow> Inl AttributeError
        | Some b \<Rightarrow>
           (case quote of
              None \<Rightarrow> Inl AttributeError
            | Some q \<Rightarrow>
               (case Instrument_post_init (name b @ name q) (Some q) of
                  Inl err \<Rightarrow> Inl err
                | Inr (s, c) \<Rightarrow> Inr (Forex s c b))))"

text \<open>The properties and \<^verbatim>\<open>__str__\<close>.\<close>

fun multiplier :: "Instrument \<Rightarrow> Decimal" where
  "multiplier (Stock s c) = Decimal_of_nat 1"
| "multiplier (Bond s c) = Decimal_of_nat 1"
| "multiplier (Option s c u t d k m) = m"
| "multiplier (FutureOption s c u t d k m) = m"
| "multiplier (Future s c m d) = m"
| "multiplier (Forex s c b) = Decimal_of_nat 1"

definition quoteCurrency :: "Instrument \<Rightarrow> Currency" where
  "quoteCurrency i = currency i"

definition Instrument_str :: "Instrument \<Rightarrow> string" where
  "Instrument_str i = symbol i"

text \<open>
  \<^verbatim>\<open>@dataclass(frozen=True)\<close> on \<^verbatim>\<open>Instrument\<close> generates \<^verbatim>\<open>__eq__\<close> and \<^verbatim>\<open>__hash__\<close> over
  the declared fields, \<^verbatim>\<open>symbol\<close> and \<^verbatim>\<open>currency\<close>: \<^verbatim>\<open>__eq__\<close> compares the two tuples of
  fields when both operands have the very same class and is false otherwise; \<^verbatim>\<open>__hash__\<close>
  hashes the tuple. \<^verbatim>\<open>Stock\<close> and \<^verbatim>\<open>Bond\<close> are dataclasses with no further field;
  \<^verbatim>\<open>Option\<close>, \<^verbatim>\<open>FutureOption\<close>, \<^verbatim>\<open>Future\<close> and \<^verbatim>\<open>Forex\<close> are plain subclasses that inherit
  both methods. The hash of a tuple is Python's own, taken here as a parameter.
\<close>

definition Instrument_eq :: "Instrument \<Rightarrow> Instrument \<Rightarrow> bool" where
  "Instrument_eq a b =
     (if class_of b = class_of a then (symbol a, currency a) = (symbol b, currency b) else False)"

definition Instrument_hash :: "(string \<times> Currency \<Rightarrow> int) \<Rightarrow> Instrument \<Rightarrow> int" where
  "Instrument_hash h a = h (symbol a, currency a)"

text \<open>
  \<^verbatim>\<open>Instrument.__lt__\<close> compares the symbols as strings, character by character. The
  other three comparisons are those \<^verbatim>\<open>functools.total_ordering\<close> derives from \<^verbatim>\<open>__lt__\<close>
  and \<^verbatim>\<open>__eq__\<close>.
\<close>

definition Instrument_lt :: "Instrument \<Rightarrow> Instrument \<Rightarrow> bool" where
  "Instrument_lt a b = (symbol a < symbol b)"

definition Instrument_gt :: "Instrument \<Rightarrow> Instrument \<Rightarrow> bool" where
  "Instrument_gt a b = (\<not> Instrument_lt a b \<and> \<not> Instrument_eq a b)"

definition Instrument_le :: "Instrument \<Rightarrow> Instrument \<Rightarrow> bool" where
  "Instrument_le a b = (Instrument_lt a b \<or> Instrument_eq a b)"

definition Instrument_ge :: "Instrument \<Rightarrow> Instrument \<Rightarrow> bool" where
  "Instrument_ge a b = (\<not> Instrument_lt a b)"

section \<open>What the specification says, in its own words\<close>

text \<open>The number a finite Decimal denotes.\<close>

definition dec_value :: "Decimal \<Rightarrow> rat" where
  "dec_value d = (if sign d then - 1 else 1) * of_nat (coefficient d) * 10 powi exponent d"

text \<open>
  Rounding half to even: \<open>r\<close> is the integer nearest to \<open>x\<close>, and the even one of the two
  nearest when \<open>x\<close> lies halfway between them.
\<close>

definition nearest_half_even :: "rat \<Rightarrow> int \<Rightarrow> bool" where
  "nearest_half_even x r =
     (\<bar>x - of_int r\<bar> < 1 / 2 \<or> (\<bar>x - of_int r\<bar> = 1 / 2 \<and> even r))"

text \<open>
  The option symbol as the specification words it: the underlying padded or truncated
  to exactly 6 characters, the expiration as YYMMDD, the letter of the option type, and
  the quantized strike times 1000 as a zero-padded integer of 8 digits.
\<close>

definition spec_symbol :: "string \<Rightarrow> date \<Rightarrow> OptionType \<Rightarrow> Decimal \<Rightarrow> string" where
  "spec_symbol u d t qk =
     take 6 (u @ replicate 6 (CHR '' '')) @ strftime_ymd d @ [OptionType_value t] @
     zfill 8 (str_nat (nat \<lfloor>dec_value qk * 1000\<rfloor>))"

text \<open>
  The CUSIP format as the specification words it: 9 characters, of which the first 3 are
  digits, the next 5 are digits or upper-case letters, and the last is a digit.
\<close>

definition spec_CUSIP :: "string \<Rightarrow> bool" where
  "spec_CUSIP s =
     (length s = 9 \<and> list_all is_0_9 (take 3 s) \<and>
      list_all (\<lambda>c. is_0_9 c \<or> is_A_Z c) (take 5 (drop 3 s)) \<and>
      list_all is_0_9 (drop 8 s))"

text \<open>The currencies that the specification's examples use.\<close>

definition USD :: Currency where
  "USD = Currency ''USD''"

definition EUR :: Currency where
  "EUR = Currency ''EUR''"

section \<open>The checks of the base class\<close>

lemma Instrument_post_init_ok:
  "symb \<noteq> [] \<Longrightarrow> Instrument_post_init symb (Some c) = Inr (symb, c)"
  by (simp add: Instrument_post_init_def)

lemma Instrument_post_init_fails:
  "symb = [] \<or> cur = None \<Longrightarrow> \<exists>msg. Instrument_post_init symb cur = Inl (ValueError msg)"
  by (auto simp: Instrument_post_init_def)

lemma Instrument_post_init_Inr:
  "Instrument_post_init symb cur = Inr (s, c) \<Longrightarrow> s = symb \<and> cur = Some c \<and> symb \<noteq> []"
  by (auto simp: Instrument_post_init_def split: if_splits option.splits)

section \<open>Foreign-exchange pairs\<close>

lemma name_append_nonempty: "b \<noteq> q \<Longrightarrow> name b @ name q \<noteq> []"
  by (cases b; cases q) auto

text \<open>
  Claim C7. A pair of one currency with itself is refused with the error for identical
  currencies. Any two distinct currencies make a pair whose symbol is the name of the
  base currency followed by the name of the quote currency; \<open>quoteCurrency\<close> reads the
  inherited field \<open>currency\<close>, \<open>baseCurrency\<close> the base stored beside it. For USD and EUR
  the symbol is USDEUR.
\<close>

theorem Forex_construction:
  "Forex_init (Some c) (Some c) = Inl (ValueError (Forex_different_currencies (Some c) (Some c))) \<and>
   (b \<noteq> q \<longrightarrow>
      (\<exists>f. Forex_init (Some b) (Some q) = Inr f \<and> symbol f = name b @ name q \<and>
           quoteCurrency f = q \<and> currency f = q \<and> baseCurrency f = b)) \<and>
   (\<exists>f. Forex_init (Some USD) (Some EUR) = Inr f \<and> symbol f = ''USDEUR'' \<and>
        quoteCurrency f = EUR \<and> baseCurrency f = USD)"
proof -
  have same: "Forex_init (Some c) (Some c) =
      Inl (ValueError (Forex_different_currencies (Some c) (Some c)))"
    by (simp add: Forex_init_def)
  have distinct: "\<exists>f. Forex_init (Some b') (Some q') = Inr f \<and> symbol f = name b' @ name q' \<and>
      quoteCurrency f = q' \<and> currency f = q' \<and> baseCurrency f = b'" if "b' \<noteq> q'" for b' q'
    using that name_append_nonempty [OF that]
    by (simp add: Forex_init_def Instrument_post_init_def quoteCurrency_def)
  have "USD \<noteq> EUR" by (simp add: USD_def EUR_def)
  from distinct [OF this] have ex: "\<exists>f. Forex_init (Some USD) (Some EUR) = Inr f \<and>
      symbol f = ''USDEUR'' \<and> quoteCurrency f = EUR \<and> baseCurrency f = USD"
    by (auto simp: USD_def EUR_def)
  from same distinct ex show ?thesis by blast
qed

theorem Forex_construction_witness:
  "USD \<noteq> EUR \<and>
   (\<exists>f. Forex_init (Some USD) (Some EUR) = Inr f \<and> symbol f = name USD @ name EUR \<and>
        quoteCurrency f = EUR \<and> currency f = EUR \<and> baseCurrency f = USD)"
proof -
  have ne: "USD \<noteq> EUR" by (simp add: USD_def EUR_def)
  with Forex_construction [of USD USD EUR] show ?thesis by blast
qed

section \<open>Evaluating the model on concrete inputs\<close>

lemma ndigits_numeral [simp]:
  "ndigits (numeral n) =
     (if numeral n < (10::nat) then 1 else Suc (ndigits (numeral n div 10)))"
  by (rule ndigits.simps)

lemma ndigits_0 [simp]: "ndigits 0 = 1"
  by (simp add: ndigits.simps)

lemma ndigits_1 [simp]: "ndigits 1 = 1"
  by (simp add: ndigits.simps)

lemma ndigits_Suc_0 [simp]: "ndigits (Suc 0) = 1"
  by (simp add: ndigits.simps)

lemma replicate_numeral_unfold [simp]:
  "replicate (numeral w) (c::char) = c # replicate (pred_numeral w) c"
  by (simp add: numeral_eq_Suc)

lemma digit_chars [simp]:
  "digit_char (Suc 0) = CHR ''1''"
  "digit_char 0 = CHR ''0''" "digit_char 1 = CHR ''1''" "digit_char 2 = CHR ''2''"
  "digit_char 3 = CHR ''3''" "digit_char 4 = CHR ''4''" "digit_char 5 = CHR ''5''"
  "digit_char 6 = CHR ''6''" "digit_char 7 = CHR ''7''" "digit_char 8 = CHR ''8''"
  "digit_char 9 = CHR ''9''"
  by (simp_all add: digit_char_def)

lemma str_nat_numeral [simp]:
  "str_nat (numeral n) =
     (if numeral n < (10::nat) then [digit_char (numeral n)]
      else str_nat (numeral n div 10) @ [digit_char (numeral n mod 10)])"
  by (rule str_nat.simps)

lemma str_nat_0 [simp]: "str_nat 0 = ''0''"
  by (simp add: str_nat.simps)

lemma str_nat_1 [simp]: "str_nat 1 = ''1''"
  by (simp add: str_nat.simps)

lemma str_nat_Suc_0 [simp]: "str_nat (Suc 0) = ''1''"
  by (simp add: str_nat.simps)

lemmas decimal_eval = quantizeMultiplier_def multiplierQuantization_def quantizeStrike_def
  strikeQuantization_def quantize_def Etiny_def Emin_def Emax_def Etop_def prec_def adjusted_def
  rescale_def round_half_even_def fix_finite_def mul_def Decimal_of_nat_def Let_def
  is_finite_def le_zero_def default_multiplier_def

lemmas format_eval = OCC_symbol_def ljust_def zfill_def strftime_ymd_def format_08_0f_def
  sign_str_def

lemmas init_eval = Option_init_def Option_init_as_def Instrument_post_init_def
  FutureOption_init_def Future_init_def Stock_init_def Bond_init_def Forex_init_def

text \<open>The expiration date of the specification's example, 2021-01-15.\<close>

lemma AAPL_example:
  "Option_init ''AAPL'' (Some USD) PUT \<lparr>year = 2021, month = 1, day = 15\<rparr>
     (Finite False 15000 (- 2)) default_multiplier None =
   Inr (Option ''AAPL  210115P00150000'' USD ''AAPL'' PUT \<lparr>year = 2021, month = 1, day = 15\<rparr>
     (Finite False 150000 (- 3)) (Finite False 1000 (- 1)))"
  by (simp add: init_eval decimal_eval format_eval)

section \<open>The invariant of a constructed option\<close>

text \<open>
  Claim C2 says that the strike stored in a constructed option is finite and strictly
  positive. The constructor checks the strike it is given and stores the quantized one:
  the strike 0.0004 passes the check and is stored as 0.000.
\<close>

theorem Option_small_strike_stored_as_zero:
  "is_finite (Finite False 4 (- 4)) \<and> \<not> le_zero (Finite False 4 (- 4)) \<and>
   Option_init ''AAPL'' (Some USD) PUT \<lparr>year = 2021, month = 1, day = 15\<rparr>
     (Finite False 4 (- 4)) default_multiplier None =
   Inr (Option ''AAPL  210115P00000000'' USD ''AAPL'' PUT \<lparr>year = 2021, month = 1, day = 15\<rparr>
     (Finite False 0 (- 3)) (Finite False 1000 (- 1))) \<and>
   le_zero (Finite False 0 (- 3)) \<and> dec_value (Finite False 0 (- 3)) = 0"
  by (simp add: init_eval decimal_eval format_eval dec_value_def)

section \<open>Equality and hashing\<close>

text \<open>
  Claim C3, as stated, makes two options equal only if they agree on every field. Two
  options built from the same arguments except the multiplier, 100 and 10, derive the same
  symbol and are equal under the generated \<^verbatim>\<open>__eq__\<close>, with different multipliers.
\<close>

theorem Option_equality_ignores_multiplier_counterexample:
  "Option_init ''AAPL'' (Some USD) PUT \<lparr>year = 2021, month = 1, day = 15\<rparr>
     (Finite False 15000 (- 2)) (Decimal_of_nat 100) None =
   Inr (Option ''AAPL  210115P00150000'' USD ''AAPL'' PUT \<lparr>year = 2021, month = 1, day = 15\<rparr>
     (Finite False 150000 (- 3)) (Finite False 1000 (- 1))) \<and>
   Option_init ''AAPL'' (Some USD) PUT \<lparr>year = 2021, month = 1, day = 15\<rparr>
     (Finite False 15000 (- 2)) (Decimal_of_nat 10) None =
   Inr (Option ''AAPL  210115P00150000'' USD ''AAPL'' PUT \<lparr>year = 2021, month = 1, day = 15\<rparr>
     (Finite False 150000 (- 3)) (Finite False 100 (- 1))) \<and>
   Instrument_eq
     (Option ''AAPL  210115P00150000'' USD ''AAPL'' PUT \<lparr>year = 2021, month = 1, day = 15\<rparr>
       (Finite False 150000 (- 3)) (Finite False 1000 (- 1)))
     (Option ''AAPL  210115P00150000'' USD ''AAPL'' PUT \<lparr>year = 2021, month = 1, day = 15\<rparr>
       (Finite False 150000 (- 3)) (Finite False 100 (- 1))) \<and>
   multiplier
     (Option ''AAPL  210115P00150000'' USD ''AAPL'' PUT \<lparr>year = 2021, month = 1, day = 15\<rparr>
       (Finite False 150000 (- 3)) (Finite False 1000 (- 1))) \<noteq>
   multiplier
     (Option ''AAPL  210115P00150000'' USD ''AAPL'' PUT \<lparr>year = 2021, month = 1, day = 15\<rparr>
       (Finite False 150000 (- 3)) (Finite False 100 (- 1)))"
  by (simp add: init_eval decimal_eval format_eval Instrument_eq_def)

text \<open>
  Claim C3, amended. Two instruments are equal exactly when they have the same class, the
  same symbol and the same currency, and equal instruments have equal hashes. Instruments
  with identical fields are equal. For a stock or a bond, whose only fields are the symbol
  and the currency, equality is agreement on all fields.
\<close>

theorem Instrument_equality:
  "(Instrument_eq a b \<longleftrightarrow>
      class_of a = class_of b \<and> symbol a = symbol b \<and> currency a = currency b) \<and>
   (Instrument_eq a b \<longrightarrow> Instrument_hash h a = Instrument_hash h b) \<and>
   (a = b \<longrightarrow> Instrument_eq a b) \<and>
   (class_of a = StockClass \<or> class_of a = BondClass \<longrightarrow> (Instrument_eq a b \<longleftrightarrow> a = b))"
proof -
  have iff: "Instrument_eq a b \<longleftrightarrow>
      class_of a = class_of b \<and> symbol a = symbol b \<and> currency a = currency b"
    by (auto simp: Instrument_eq_def)
  have hash: "Instrument_eq a b \<longrightarrow> Instrument_hash h a = Instrument_hash h b"
    by (simp add: iff Instrument_hash_def)
  have refl: "a = b \<longrightarrow> Instrument_eq a b"
    by (simp add: Instrument_eq_def)
  have plain: "class_of a = StockClass \<or> class_of a = BondClass \<longrightarrow>
      (Instrument_eq a b \<longleftrightarrow> a = b)"
    unfolding iff by (cases a; cases b) auto
  from iff hash refl plain show ?thesis by blast
qed

theorem Instrument_equality_witness:
  "Instrument_eq (Stock ''X'' USD) (Stock ''X'' USD) \<and>
   Instrument_hash (\<lambda>p. 0) (Stock ''X'' USD) = Instrument_hash (\<lambda>p. 0) (Stock ''X'' USD) \<and>
   class_of (Stock ''X'' USD) = StockClass \<and>
   \<not> Instrument_eq (Stock ''X'' USD) (Bond ''X'' USD)"
  using Instrument_equality [of "Stock ''X'' USD" "Stock ''X'' USD" "\<lambda>p. 0"]
    Instrument_equality [of "Stock ''X'' USD" "Bond ''X'' USD" "\<lambda>p. 0"]
  by simp

section \<open>Bonds\<close>

lemma match_replicate:
  "list_all2 (\<lambda>p c. p c) (replicate n P) s \<longleftrightarrow> length s = n \<and> list_all P s"
proof (induction n arbitrary: s)
  case 0
  then show ?case by auto
next
  case (Suc n)
  then show ?case by (cases s) auto
qed

lemma match_append:
  "list_all2 R (ps @ qs) s \<longleftrightarrow>
     list_all2 R ps (take (length ps) s) \<and> list_all2 R qs (drop (length ps) s)"
proof
  assume "list_all2 R (ps @ qs) s"
  then obtain us vs where s: "s = us @ vs" and l: "length us = length ps"
    and m: "list_all2 R ps us" "list_all2 R qs vs"
    by (auto simp: list_all2_append1)
  from l m show "list_all2 R ps (take (length ps) s) \<and> list_all2 R qs (drop (length ps) s)"
    by (simp add: s)
next
  assume a: "list_all2 R ps (take (length ps) s) \<and> list_all2 R qs (drop (length ps) s)"
  then have "list_all2 R (ps @ qs) (take (length ps) s @ drop (length ps) s)"
    by (intro list_all2_appendI) simp_all
  then show "list_all2 R (ps @ qs) s" by simp
qed

lemma regexCUSIP_matches: "list_all2 (\<lambda>p c. p c) regexCUSIP s \<longleftrightarrow> spec_CUSIP s"
proof -
  have "list_all2 (\<lambda>p c. p c) regexCUSIP s \<longleftrightarrow>
      (length (take 3 s) = 3 \<and> list_all is_0_9 (take 3 s)) \<and>
      (length (take 5 (drop 3 s)) = 5 \<and>
       list_all (\<lambda>c. is_0_9 c \<or> is_A_Z c) (take 5 (drop 3 s))) \<and>
      (length (drop 5 (drop 3 s)) = 1 \<and> list_all is_0_9 (drop 5 (drop 3 s)))"
    unfolding regexCUSIP_def match_append match_replicate length_replicate ..
  also have "\<dots> \<longleftrightarrow> spec_CUSIP s"
    by (auto simp: spec_CUSIP_def)
  finally show ?thesis .
qed

lemma validBondSymbol_iff:
  "validBondSymbol s \<longleftrightarrow>
     spec_CUSIP s \<or> (s \<noteq> [] \<and> last s = CHR 0x0A \<and> spec_CUSIP (butlast s))"
  by (simp add: validBondSymbol_def re_match_def regexCUSIP_matches)

text \<open>
  The pattern is matched with \<^verbatim>\<open>re.match\<close>, whose \<^verbatim>\<open>$\<close> also matches before a newline that
  ends the string: a CUSIP followed by a newline has 10 characters and is accepted with
  validation on.
\<close>

lemma Bond_trailing_newline_accepted:
  "\<not> spec_CUSIP (''123ABCDE9'' @ [CHR 0x0A]) \<and>
   Bond_init (''123ABCDE9'' @ [CHR 0x0A]) (Some USD) True =
     Inr (Bond (''123ABCDE9'' @ [CHR 0x0A]) USD)"
proof -
  have "spec_CUSIP ''123ABCDE9''"
    by (simp add: spec_CUSIP_def is_0_9_def is_A_Z_def)
  then have "validBondSymbol (''123ABCDE9'' @ [CHR 0x0A])"
    by (simp add: validBondSymbol_iff)
  moreover have "\<not> spec_CUSIP (''123ABCDE9'' @ [CHR 0x0A])"
    by (simp add: spec_CUSIP_def)
  ultimately show ?thesis
    by (simp add: Bond_init_def Instrument_post_init_def)
qed

text \<open>
  Claim C4, as stated, promises that every symbol the pattern rejects is accepted once
  validation is switched off. The empty symbol is rejected by the pattern, and with
  validation off it still fails, in the base class's check for a non-empty symbol.
\<close>

theorem Bond_empty_symbol_counterexample:
  "\<not> spec_CUSIP '''' \<and> \<not> validBondSymbol '''' \<and>
   Bond_init '''' (Some USD) True = Inl (ValueError (Expected_bond_CUSIP '''')) \<and>
   Bond_init '''' (Some USD) False = Inl (ValueError Expected_nonempty_symbol)"
  by (simp add: validBondSymbol_iff spec_CUSIP_def Bond_init_def Instrument_post_init_def)

text \<open>
  Claim C4, amended. Take a symbol that is not a CUSIP of the 9-character format, and is
  not such a CUSIP followed by one newline either. Construction with validation fails,
  whatever the currency, with the CUSIP error that carries the symbol. Without validation
  the same symbol is accepted when it is not empty (and the currency is present), and the
  empty symbol fails with the error for an empty symbol.
\<close>

theorem Bond_CUSIP_validation:
  "\<not> spec_CUSIP symb \<Longrightarrow>
   \<not> (symb \<noteq> [] \<and> last symb = CHR 0x0A \<and> spec_CUSIP (butlast symb)) \<Longrightarrow>
     Bond_init symb cur True = Inl (ValueError (Expected_bond_CUSIP symb)) \<and>
     (symb \<noteq> [] \<longrightarrow> Bond_init symb (Some c) False = Inr (Bond symb c)) \<and>
     (symb = [] \<longrightarrow> Bond_init symb cur False = Inl (ValueError Expected_nonempty_symbol))"
proof -
  assume "\<not> spec_CUSIP symb"
    and "\<not> (symb \<noteq> [] \<and> last symb = CHR 0x0A \<and> spec_CUSIP (butlast symb))"
  then have "\<not> validBondSymbol symb"
    by (simp only: validBondSymbol_iff) blast
  then show ?thesis
    by (simp add: Bond_init_def Instrument_post_init_def)
qed

theorem Bond_CUSIP_validation_witness:
  "\<not> spec_CUSIP ''ABC'' \<and> last ''ABC'' \<noteq> CHR 0x0A \<and>
   Bond_init ''ABC'' (Some USD) True = Inl (ValueError (Expected_bond_CUSIP ''ABC'')) \<and>
   Bond_init ''ABC'' (Some USD) False = Inr (Bond ''ABC'' USD)"
proof -
  have a: "\<not> spec_CUSIP ''ABC''" by (simp add: spec_CUSIP_def)
  have b: "last ''ABC'' \<noteq> CHR 0x0A" by simp
  then have "\<not> (''ABC'' \<noteq> [] \<and> last ''ABC'' = CHR 0x0A \<and> spec_CUSIP (butlast ''ABC''))"
    by blast
  from Bond_CUSIP_validation [OF a this, of "Some USD" USD] a b show ?thesis by simp
qed

section \<open>Ordering\<close>

text \<open>
  Claim C6 says that the comparisons derived from \<open><\<close> form a total order over instruments
  of any kinds. A stock and a bond with the same symbol are accepted by the constructors
  and are not equal. \<open><\<close> holds in neither direction and \<open>\<ge>\<close> in both, as for two
  instruments tied in the order; yet \<open>\<le>\<close> holds in neither direction and \<open>>\<close> in both.
\<close>

theorem Instrument_ordering_same_symbol:
  "Stock_init ''X'' (Some USD) = Inr (Stock ''X'' USD) \<and>
   Bond_init ''X'' (Some USD) False = Inr (Bond ''X'' USD) \<and>
   \<not> Instrument_eq (Stock ''X'' USD) (Bond ''X'' USD) \<and>
   \<not> Instrument_lt (Stock ''X'' USD) (Bond ''X'' USD) \<and>
   \<not> Instrument_lt (Bond ''X'' USD) (Stock ''X'' USD) \<and>
   Instrument_ge (Stock ''X'' USD) (Bond ''X'' USD) \<and>
   Instrument_ge (Bond ''X'' USD) (Stock ''X'' USD) \<and>
   \<not> Instrument_le (Stock ''X'' USD) (Bond ''X'' USD) \<and>
   \<not> Instrument_le (Bond ''X'' USD) (Stock ''X'' USD) \<and>
   Instrument_gt (Stock ''X'' USD) (Bond ''X'' USD) \<and>
   Instrument_gt (Bond ''X'' USD) (Stock ''X'' USD)"
  by (simp add: Stock_init_def Bond_init_def Instrument_post_init_def Instrument_le_def
      Instrument_gt_def Instrument_ge_def Instrument_lt_def Instrument_eq_def)

text \<open>
  \<open><\<close> itself compares the symbols alone, whatever the kinds: it is irreflexive,
  asymmetric and transitive, two instruments are unrelated by it exactly when their
  symbols are equal, and \<open>\<ge>\<close> is its negation.
\<close>

lemma Instrument_lt_by_symbol:
  "(Instrument_lt a b \<longleftrightarrow> symbol a < symbol b) \<and>
   \<not> Instrument_lt a a \<and>
   (Instrument_lt a b \<longrightarrow> \<not> Instrument_lt b a) \<and>
   (Instrument_lt a b \<and> Instrument_lt b c \<longrightarrow> Instrument_lt a c) \<and>
   (\<not> Instrument_lt a b \<and> \<not> Instrument_lt b a \<longleftrightarrow> symbol a = symbol b) \<and>
   (Instrument_ge a b \<longleftrightarrow> \<not> Instrument_lt a b)"
  by (auto simp: Instrument_lt_def Instrument_ge_def)

section \<open>Options on futures\<close>

lemma Option_init_as_Inr:
  assumes "Option_init_as cls u cur t d k m symb = Inr i"
  shows "u \<noteq> [] \<and> is_finite k \<and> \<not> le_zero k \<and> is_finite m \<and> \<not> le_zero m \<and>
    (\<exists>qk qm s c. quantizeStrike k = Inr qk \<and> quantizeMultiplier m = Inr qm \<and>
       (case symb of None \<Rightarrow> OCC_symbol u d t k | Some s' \<Rightarrow> Inr s') = Inr s \<and>
       s \<noteq> [] \<and> cur = Some c \<and> i = cls s c u t d qk qm)"
  using assms
  by (auto simp: Option_init_as_def Instrument_post_init_def
      split: if_splits sum.splits option.splits)

lemma FutureOption_example:
  "FutureOption_init ''ESZ1 P3000'' ''ES'' (Some USD) PUT \<lparr>year = 2021, month = 12, day = 17\<rparr>
     (Finite False 3000 0) (Finite False 50 0) =
   Inr (FutureOption ''ESZ1 P3000'' USD ''ES'' PUT \<lparr>year = 2021, month = 12, day = 17\<rparr>
     (Finite False 3000000 (- 3)) (Finite False 500 (- 1)))"
  by (simp add: init_eval decimal_eval)

text \<open>
  Claim C10. \<^verbatim>\<open>FutureOption\<close> takes its symbol from the caller and stores it as given; no
  symbol is derived. It runs the checks of \<^verbatim>\<open>Option\<close> in the same order: an empty
  underlying, then a strike that is not finite or not positive, then such a multiplier,
  each refused with the error of \<^verbatim>\<open>Option\<close>. The stored strike and multiplier are the
  results of \<open>quantizeStrike\<close> and \<open>quantizeMultiplier\<close>, and construction fails or succeeds
  exactly as that of an \<^verbatim>\<open>Option\<close> given the same symbol, with the same error or the same
  fields.
\<close>

theorem FutureOption_pipeline:
  "(u = [] \<longrightarrow>
      FutureOption_init symb u cur t d k m = Inl (ValueError Expected_nonempty_underlying)) \<and>
   (u \<noteq> [] \<and> (\<not> is_finite k \<or> le_zero k) \<longrightarrow>
      FutureOption_init symb u cur t d k m = Inl (ValueError (Expected_positive_strike k))) \<and>
   (u \<noteq> [] \<and> is_finite k \<and> \<not> le_zero k \<and> (\<not> is_finite m \<or> le_zero m) \<longrightarrow>
      FutureOption_init symb u cur t d k m = Inl (ValueError (Expected_positive_multiplier m))) \<and>
   (FutureOption_init symb u cur t d k m = Inr fo \<longrightarrow>
      class_of fo = FutureOptionClass \<and> symbol fo = symb \<and> underlying fo = u \<and>
      optionType fo = t \<and> expiration fo = d \<and>
      quantizeStrike k = Inr (strike fo) \<and> quantizeMultiplier m = Inr (multiplier fo)) \<and>
   (FutureOption_init symb u cur t d k m = Inl err \<longleftrightarrow>
      Option_init u cur t d k m (Some symb) = Inl err) \<and>
   (FutureOption_init symb u cur t d k m = Inr (FutureOption s c u' t' d' qk qm) \<longleftrightarrow>
      Option_init u cur t d k m (Some symb) = Inr (Option s c u' t' d' qk qm))"
proof -
  have c1: "u = [] \<longrightarrow>
      FutureOption_init symb u cur t d k m = Inl (ValueError Expected_nonempty_underlying)"
    by (simp add: FutureOption_init_def Option_init_as_def)
  have c2: "u \<noteq> [] \<and> (\<not> is_finite k \<or> le_zero k) \<longrightarrow>
      FutureOption_init symb u cur t d k m = Inl (ValueError (Expected_positive_strike k))"
    by (auto simp: FutureOption_init_def Option_init_as_def)
  have c3: "u \<noteq> [] \<and> is_finite k \<and> \<not> le_zero k \<and> (\<not> is_finite m \<or> le_zero m) \<longrightarrow>
      FutureOption_init symb u cur t d k m = Inl (ValueError (Expected_positive_multiplier m))"
    by (auto simp: FutureOption_init_def Option_init_as_def)
  have c4: "FutureOption_init symb u cur t d k m = Inr fo \<longrightarrow>
      class_of fo = FutureOptionClass \<and> symbol fo = symb \<and> underlying fo = u \<and>
      optionType fo = t \<and> expiration fo = d \<and>
      quantizeStrike k = Inr (strike fo) \<and> quantizeMultiplier m = Inr (multiplier fo)"
    unfolding FutureOption_init_def by (auto dest!: Option_init_as_Inr)
  have c5: "FutureOption_init symb u cur t d k m = Inl err \<longleftrightarrow>
      Option_init u cur t d k m (Some symb) = Inl err"
    by (auto simp: FutureOption_init_def Option_init_def Option_init_as_def
        split: if_splits sum.splits prod.splits)
  have c6: "FutureOption_init symb u cur t d k m = Inr (FutureOption s c u' t' d' qk qm) \<longleftrightarrow>
      Option_init u cur t d k m (Some symb) = Inr (Option s c u' t' d' qk qm)"
    by (auto simp: FutureOption_init_def Option_init_def Option_init_as_def
        split: if_splits sum.splits prod.splits)
  from c1 c2 c3 c4 c5 c6 show ?thesis by blast
qed

theorem FutureOption_pipeline_witness:
  "FutureOption_init ''ESZ1 P3000'' ''ES'' (Some USD) PUT \<lparr>year = 2021, month = 12, day = 17\<rparr>
     (Finite False 3000 0) (Finite False 50 0) =
   Inr (FutureOption ''ESZ1 P3000'' USD ''ES'' PUT \<lparr>year = 2021, month = 12, day = 17\<rparr>
     (Finite False 3000000 (- 3)) (Finite False 500 (- 1))) \<and>
   quantizeStrike (Finite False 3000 0) = Inr (Finite False 3000000 (- 3)) \<and>
   quantizeMultiplier (Finite False 50 0) = Inr (Finite False 500 (- 1)) \<and>
   Option_init ''ES'' (Some USD) PUT \<lparr>year = 2021, month = 12, day = 17\<rparr>
     (Finite False 3000 0) (Finite False 50 0) (Some ''ESZ1 P3000'') =
   Inr (Option ''ESZ1 P3000'' USD ''ES'' PUT \<lparr>year = 2021, month = 12, day = 17\<rparr>
     (Finite False 3000000 (- 3)) (Finite False 500 (- 1))) \<and>
   FutureOption_init ''ESZ1 P3000'' [] (Some USD) PUT \<lparr>year = 2021, month = 12, day = 17\<rparr>
     (Finite False 3000 0) (Finite False 50 0) = Inl (ValueError Expected_nonempty_underlying)"
  using FutureOption_example
    FutureOption_pipeline [of "''ES''" "''ESZ1 P3000''" "Some USD" PUT
      "\<lparr>year = 2021, month = 12, day = 17\<rparr>" "Finite False 3000 0" "Finite False 50 0"
      "FutureOption ''ESZ1 P3000'' USD ''ES'' PUT \<lparr>year = 2021, month = 12, day = 17\<rparr>
        (Finite False 3000000 (- 3)) (Finite False 500 (- 1))" InvalidOperation
      "''ESZ1 P3000''" USD "''ES''" PUT "\<lparr>year = 2021, month = 12, day = 17\<rparr>"
      "Finite False 3000000 (- 3)" "Finite False 500 (- 1)"]
    FutureOption_pipeline [of "[]" "''ESZ1 P3000''" "Some USD" PUT
      "\<lparr>year = 2021, month = 12, day = 17\<rparr>" "Finite False 3000 0" "Finite False 50 0"]
  by simp

section \<open>Digits and rounding\<close>

lemma ndigits_pos: "0 < ndigits n"
  by (simp add: ndigits.simps [of n])

lemma ndigits_le_iff: "0 < d \<Longrightarrow> ndigits n \<le> d \<longleftrightarrow> n < 10 ^ d"
proof (induction n arbitrary: d rule: ndigits.induct)
  case (1 n)
  show ?case
  proof (cases "n < 10")
    case True
    have "(10::nat) ^ 1 \<le> 10 ^ d" using "1.prems" by (intro power_increasing) auto
    with True "1.prems" show ?thesis by (simp add: ndigits.simps [of n])
  next
    case False
    show ?thesis
    proof (cases "d = 1")
      case True
      with False ndigits_pos [of "n div 10"] show ?thesis
        by (simp add: ndigits.simps [of n])
    next
      case d: False
      with "1.prems" obtain d' where d': "d = Suc d'" "0 < d'" by (cases d) auto
      from "1.IH" [OF False d'(2)] have "ndigits (n div 10) \<le> d' \<longleftrightarrow> n div 10 < 10 ^ d'" .
      also have "\<dots> \<longleftrightarrow> n < 10 ^ d" by (auto simp: d' div_less_iff_less_mult)
      finally show ?thesis using False by (simp add: ndigits.simps [of n] d')
    qed
  qed
qed

lemma ndigits_lower: "0 < c \<Longrightarrow> 10 ^ (ndigits c - 1) \<le> c"
proof (cases "ndigits c = 1")
  case True
  assume "0 < c" with True show ?thesis by simp
next
  case False
  with ndigits_pos [of c] have d: "0 < ndigits c - 1" by linarith
  have "\<not> ndigits c \<le> ndigits c - 1" using ndigits_pos [of c] by linarith
  with ndigits_le_iff [OF d, of c] show ?thesis by simp
qed

lemma length_str_nat: "length (str_nat n) = ndigits n"
  by (induction n rule: str_nat.induct) (simp add: str_nat.simps ndigits.simps)

lemma round_half_even_ge: "c div 10 ^ k \<le> round_half_even c k"
  by (simp add: round_half_even_def Let_def)

lemma round_half_even_le: "round_half_even c k \<le> c div 10 ^ k + 1"
  by (simp add: round_half_even_def Let_def)

lemma nearest_half_even_unique:
  assumes "nearest_half_even x r" and "nearest_half_even x r'"
  shows "r = r'"
proof (rule ccontr)
  assume ne: "r \<noteq> r'"
  from assms have b: "\<bar>x - of_int r\<bar> \<le> 1 / 2" "\<bar>x - of_int r'\<bar> \<le> 1 / 2"
    by (auto simp: nearest_half_even_def)
  have "\<bar>(of_int r :: rat) - of_int r'\<bar> \<le> \<bar>x - of_int r\<bar> + \<bar>x - of_int r'\<bar>" by linarith
  with b have le1: "\<bar>(of_int r :: rat) - of_int r'\<bar> \<le> 1" by linarith
  have "\<bar>(of_int r :: rat) - of_int r'\<bar> = of_int \<bar>r - r'\<bar>" by simp
  with le1 have "\<bar>r - r'\<bar> \<le> 1" by (metis of_int_le_1_iff)
  with ne have d: "\<bar>r - r'\<bar> = 1" by linarith
  then have par: "even r \<longleftrightarrow> odd r'" by presburger
  from d have "\<bar>(of_int r :: rat) - of_int r'\<bar> = 1"
    by (metis \<open>\<bar>(of_int r :: rat) - of_int r'\<bar> = of_int \<bar>r - r'\<bar>\<close> of_int_1)
  with b have "\<bar>x - of_int r\<bar> = 1 / 2" "\<bar>x - of_int r'\<bar> = 1 / 2" by linarith+
  with assms have "even r" "even r'" by (auto simp: nearest_half_even_def)
  with par show False by simp
qed

lemma nearest_half_even_minus: "nearest_half_even (- x) (- r) \<longleftrightarrow> nearest_half_even x r"
proof -
  have "\<bar>- x - of_int (- r)\<bar> = \<bar>x - of_int r\<bar>" by simp
  then show ?thesis unfolding nearest_half_even_def by simp
qed

lemma round_half_even_nearest:
  "nearest_half_even (of_nat c / 10 ^ k) (int (round_half_even c k))"
proof -
  define p :: nat where "p = 10 ^ k"
  define q where "q = c div p"
  define r where "r = c mod p"
  have p: "0 < p" by (simp add: p_def)
  have c: "c = q * p + r" by (simp add: q_def r_def)
  have r: "r < p" using p by (simp add: r_def)
  have x: "(of_nat c :: rat) / 10 ^ k = of_nat q + of_nat r / of_nat p"
    using p by (simp add: c p_def field_simps)
  have rhe: "round_half_even c k = (if p < 2 * r \<or> (2 * r = p \<and> odd q) then q + 1 else q)"
    by (simp add: round_half_even_def Let_def p_def q_def r_def)
  have lt_cast: "(of_nat (2 * r) :: rat) < of_nat p \<longleftrightarrow> 2 * r < p"
    by (rule of_nat_less_iff)
  have eq_cast: "(of_nat (2 * r) :: rat) = of_nat p \<longleftrightarrow> 2 * r = p"
    by (rule of_nat_eq_iff)
  have rp: "(of_nat r :: rat) / of_nat p < 1 / 2 \<longleftrightarrow> 2 * r < p"
    using p lt_cast by (simp add: field_simps)
  have rp_eq: "(of_nat r :: rat) / of_nat p = 1 / 2 \<longleftrightarrow> 2 * r = p"
    using p eq_cast by (auto simp: field_simps)
  have nonneg: "0 \<le> (of_nat r :: rat) / of_nat p" by simp
  have lt1: "(of_nat r :: rat) / of_nat p < 1" using r p by simp
  consider "2 * r < p" | "2 * r = p" | "p < 2 * r" by linarith
  then show ?thesis
  proof cases
    case 1
    with rp have "(of_nat r :: rat) / of_nat p < 1 / 2" by simp
    with nonneg 1 show ?thesis by (simp add: nearest_half_even_def rhe x)
  next
    case 2
    with rp_eq have h: "(of_nat r :: rat) / of_nat p = 1 / 2" by simp
    show ?thesis using 2 by (auto simp: nearest_half_even_def rhe x h)
  next
    case 3
    then have "\<not> 2 * r < p" "2 * r \<noteq> p" by auto
    with rp rp_eq have "\<not> (of_nat r :: rat) / of_nat p < 1 / 2"
      "(of_nat r :: rat) / of_nat p \<noteq> 1 / 2" by blast+
    then have "1 / 2 < (of_nat r :: rat) / of_nat p" by linarith
    with lt1 3 show ?thesis by (simp add: nearest_half_even_def rhe x)
  qed
qed

section \<open>Rescaling and quantizing\<close>

lemma rescale_Finite: "rescale s c e x = Finite s (coefficient (rescale s c e x)) x"
  by (simp add: rescale_def)

lemma rescale_nearest:
  "nearest_half_even (of_nat c * 10 powi (e - x)) (int (coefficient (rescale s c e x)))"
proof (cases "c = 0")
  case True
  then show ?thesis by (simp add: rescale_def nearest_half_even_def)
next
  case c: False
  show ?thesis
  proof (cases "x \<le> e")
    case True
    then have "(10::rat) powi (e - x) = 10 ^ nat (e - x)" by (simp add: power_int_def)
    with c True show ?thesis by (simp add: rescale_def nearest_half_even_def)
  next
    case False
    then have "(10::rat) powi (e - x) = 1 / 10 ^ nat (x - e)"
      by (simp add: power_int_def power_one_over)
    then have "(of_nat c :: rat) * 10 powi (e - x) = of_nat c / 10 ^ nat (x - e)"
      by simp
    with c False round_half_even_nearest [of c "nat (x - e)"] show ?thesis
      by (simp add: rescale_def)
  qed
qed

lemma fix_finite_id:
  assumes "n < 10 ^ prec" and "Etiny \<le> x" and "x \<le> Etop"
  shows "fix_finite s n x = Inr (Finite s n x)"
proof (cases "n = 0")
  case True
  with assms(2,3) show ?thesis
    by (simp add: fix_finite_def Etop_def prec_def)
next
  case False
  have "0 < prec" by (simp add: prec_def)
  from ndigits_le_iff [OF this, of n] assms(1) have "ndigits n \<le> prec" by simp
  then have "int (ndigits n) + x - int prec \<le> x" by simp
  with assms(2,3) have "\<not> Etop < int (ndigits n) + x - int prec"
    "\<not> x < max (int (ndigits n) + x - int prec) Etiny" by simp_all
  with False show ?thesis
    by (simp add: fix_finite_def Let_def)
qed

lemma rescale_coefficient_large:
  assumes c: "0 < c" and big: "int prec < adjusted c e - x + 1"
  shows "10 ^ prec \<le> coefficient (rescale s c e x)"
proof -
  note low = ndigits_lower [OF c]
  show ?thesis
  proof (cases "x \<le> e")
    case True
    from big True have "prec \<le> (ndigits c - 1) + nat (e - x)"
      by (simp add: adjusted_def)
    then have "(10::nat) ^ prec \<le> 10 ^ ((ndigits c - 1) + nat (e - x))"
      by (intro power_increasing) auto
    also have "\<dots> = 10 ^ (ndigits c - 1) * 10 ^ nat (e - x)" by (simp add: power_add)
    also have "\<dots> \<le> c * 10 ^ nat (e - x)" using low by (intro mult_right_mono) auto
    finally show ?thesis using c True by (simp add: rescale_def)
  next
    case False
    define k where "k = nat (x - e)"
    from big False have "prec + k \<le> ndigits c - 1"
      by (simp add: adjusted_def k_def)
    then have "(10::nat) ^ (prec + k) \<le> 10 ^ (ndigits c - 1)"
      by (intro power_increasing) auto
    with low have "10 ^ prec * 10 ^ k \<le> c" by (simp add: power_add)
    then have "10 ^ prec \<le> c div 10 ^ k"
      by (simp add: less_eq_div_iff_mult_less_eq)
    also have "\<dots> \<le> round_half_even c k" by (rule round_half_even_ge)
    finally show ?thesis using c False by (simp add: rescale_def k_def)
  qed
qed

lemma quantize_Finite:
  assumes x: "Etiny \<le> x" "x \<le> 0"
  shows "quantize (Finite s c e) (Finite qs qc x) =
    (if coefficient (rescale s c e x) < 10 ^ prec then Inr (rescale s c e x)
     else Inl InvalidOperation)"
proof (cases "c = 0")
  case True
  from x have "x \<le> Etop" "x \<le> Emax" by (simp_all add: Etop_def Emax_def prec_def)
  with True x fix_finite_id [of 0 x s] show ?thesis
    by (simp add: quantize_def rescale_def)
next
  case False
  then have c: "0 < c" by simp
  define n where "n = coefficient (rescale s c e x)"
  have res: "rescale s c e x = Finite s n x"
    unfolding n_def by (rule rescale_Finite)
  from x have xe: "x \<le> Etop" "x \<le> Emax" by (simp_all add: Etop_def Emax_def prec_def)
  show ?thesis
  proof (cases "Emax < adjusted c e \<or> int prec < adjusted c e - x + 1")
    case True
    with x have "int prec < adjusted c e - x + 1" by (auto simp: Emax_def prec_def)
    from rescale_coefficient_large [OF c this, of s] have "\<not> n < 10 ^ prec"
      by (simp add: n_def)
    with True False x xe show ?thesis
      by (auto simp: quantize_def simp flip: n_def)
  next
    case ok: False
    show ?thesis
    proof (cases "n < 10 ^ prec")
      case True
      have "0 < prec" by (simp add: prec_def)
      from ndigits_le_iff [OF this, of n] True have nd: "ndigits n \<le> prec" by simp
      then have "\<not> Emax < adjusted n x" using x by (simp add: adjusted_def Emax_def prec_def)
      with ok False x xe nd True fix_finite_id [OF True x(1) xe(1), of s] show ?thesis
        by (simp add: quantize_def res flip: n_def)
    next
      case big: False
      have "0 < prec" by (simp add: prec_def)
      from ndigits_le_iff [OF this, of n] big have "prec < ndigits n" by simp
      with ok False x xe big show ?thesis
        by (simp add: quantize_def res flip: n_def)
    qed
  qed
qed

lemma dec_value_Finite:
  "dec_value (Finite s c e) = (if s then - 1 else 1) * of_nat c * 10 powi e"
  by (simp add: dec_value_def)

text \<open>
  Quantizing a finite value in terms of the number it denotes: the result is that number
  scaled to the new exponent and rounded half to even, as long as the rounded coefficient
  has at most \<open>prec\<close> digits.
\<close>

lemma quantize_nearest:
  assumes x: "Etiny \<le> x" "x \<le> 0"
    and r: "nearest_half_even (dec_value (Finite s c e) * 10 powi (- x)) r"
  shows "quantize (Finite s c e) (Finite qs qc x) =
    (if \<bar>r\<bar> < 10 ^ prec then Inr (Finite s (nat \<bar>r\<bar>) x) else Inl InvalidOperation)"
proof -
  define n where "n = coefficient (rescale s c e x)"
  have res: "rescale s c e x = Finite s n x"
    unfolding n_def by (rule rescale_Finite)
  have pw: "(10::rat) powi e * 10 powi (- x) = 10 powi (e - x)"
    using power_int_add [of "10::rat" e "- x"] by simp
  have val: "dec_value (Finite s c e) * 10 powi (- x) =
      (if s then - 1 else 1) * (of_nat c * 10 powi (e - x))"
  proof -
    have "dec_value (Finite s c e) * 10 powi (- x) =
        (if s then - 1 else 1) * (of_nat c * (10 powi e * 10 powi (- x)))"
      by (simp add: dec_value_Finite)
    then show ?thesis by (simp only: pw)
  qed
  have near: "nearest_half_even (of_nat c * 10 powi (e - x)) (int n)"
    unfolding n_def by (rule rescale_nearest)
  have "\<bar>r\<bar> = int n"
  proof (cases s)
    case True
    with val have "dec_value (Finite s c e) * 10 powi (- x) = - (of_nat c * 10 powi (e - x))"
      by simp
    with r have "nearest_half_even (- (of_nat c * 10 powi (e - x))) (- (- r))" by simp
    then have "nearest_half_even (of_nat c * 10 powi (e - x)) (- r)"
      by (simp only: nearest_half_even_minus)
    from nearest_half_even_unique [OF this near] show ?thesis by simp
  next
    case False
    with val have "dec_value (Finite s c e) * 10 powi (- x) = of_nat c * 10 powi (e - x)"
      by simp
    with r have "nearest_half_even (of_nat c * 10 powi (e - x)) r" by simp
    from nearest_half_even_unique [OF this near] show ?thesis by simp
  qed
  then have abs_r: "nat \<bar>r\<bar> = n" "\<bar>r\<bar> = int n" by simp_all
  have "(int n < 10 ^ prec) = (n < 10 ^ prec)"
    using of_nat_less_iff [of n "10 ^ prec", where ?'a = int] by simp
  with abs_r have "(\<bar>r\<bar> < 10 ^ prec) = (n < 10 ^ prec)" by simp
  with abs_r(1) quantize_Finite [OF x, of s c e qs qc] show ?thesis
    by (simp only: res Decimal.sel flip: n_def)
qed

lemma nearest_half_even_sign:
  assumes "nearest_half_even v r"
  shows "(0 \<le> v \<longrightarrow> 0 \<le> r) \<and> (v \<le> 0 \<longrightarrow> r \<le> 0)"
proof -
  from assms have b: "\<bar>v - of_int r\<bar> \<le> 1 / 2" by (auto simp: nearest_half_even_def)
  have "0 \<le> r" if v: "0 \<le> v"
  proof (rule ccontr)
    assume "\<not> 0 \<le> r"
    then have "r \<le> - 1" by simp
    then have "(of_int r :: rat) \<le> - 1" by (metis of_int_le_iff of_int_minus of_int_1)
    with v b show False by linarith
  qed
  moreover have "r \<le> 0" if v: "v \<le> 0"
  proof (rule ccontr)
    assume "\<not> r \<le> 0"
    then have "1 \<le> r" by simp
    then have "(1 :: rat) \<le> of_int r" by (metis of_int_le_iff of_int_1)
    with v b show False by linarith
  qed
  ultimately show ?thesis by blast
qed

lemma dec_value_sign:
  "(s \<longrightarrow> dec_value (Finite s c e) * 10 powi z \<le> 0) \<and>
   (\<not> s \<longrightarrow> 0 \<le> dec_value (Finite s c e) * 10 powi z)"
proof -
  have "0 \<le> (of_nat c :: rat) * 10 powi e * 10 powi z" by simp
  then show ?thesis by (auto simp: dec_value_Finite)
qed

lemma scaled_value_nearest:
  "nearest_half_even (dec_value (Finite s c e) * 10 powi (- x))
     ((if s then - 1 else 1) * int (coefficient (rescale s c e x)))"
proof -
  have pw: "(10::rat) powi e * 10 powi (- x) = 10 powi (e - x)"
    using power_int_add [of "10::rat" e "- x"] by simp
  have "dec_value (Finite s c e) * 10 powi (- x) =
      (if s then - 1 else 1) * (of_nat c * (10 powi e * 10 powi (- x)))"
    by (simp add: dec_value_Finite)
  then have val: "dec_value (Finite s c e) * 10 powi (- x) =
      (if s then - 1 else 1) * (of_nat c * 10 powi (e - x))"
    by (simp only: pw)
  note near = rescale_nearest [of c e x s]
  show ?thesis
  proof (cases s)
    case True
    with val near nearest_half_even_minus [of "of_nat c * 10 powi (e - x)"
        "int (coefficient (rescale s c e x))"]
    show ?thesis by simp
  next
    case False
    with val near show ?thesis by simp
  qed
qed

lemma nearest_result_value:
  assumes "nearest_half_even (dec_value (Finite s c e) * 10 powi (- x)) r"
  shows "dec_value (Finite s (nat \<bar>r\<bar>) x) = of_int r * 10 powi x"
proof -
  from nearest_half_even_sign [OF assms] dec_value_sign [of s c e "- x"]
  have "(s \<longrightarrow> r \<le> 0) \<and> (\<not> s \<longrightarrow> 0 \<le> r)" by blast
  then show ?thesis by (cases s) (simp_all add: dec_value_Finite)
qed

section \<open>Quantizing the multiplier\<close>

text \<open>
  Claim C8, as stated, has the helper round any finite decimal. The result must fit in
  the 28 digits of the context: quantizing \<open>1E+27\<close> to tenths would need 29 digits, and
  \<^verbatim>\<open>quantize\<close> raises \<^verbatim>\<open>InvalidOperation\<close> instead.
\<close>

theorem quantizeMultiplier_too_large_counterexample:
  "is_finite (Finite False 1 27) \<and>
   quantizeMultiplier (Finite False 1 27) = Inl InvalidOperation"
  by (simp add: decimal_eval)

text \<open>
  Claim C8, amended. For a finite decimal \<open>d\<close>, let \<open>r\<close> be \<open>10 d\<close> rounded to the nearest
  integer, halves to the even one (such an \<open>r\<close> exists). If \<open>r\<close> has at most 28 digits,
  \<open>quantizeMultiplier d\<close> is the decimal \<open>r / 10\<close> with exponent \<open>-1\<close> and the sign of \<open>d\<close>;
  otherwise it raises \<^verbatim>\<open>InvalidOperation\<close>. In particular 100.04 and 100.05 both become
  100.0.
\<close>

theorem quantizeMultiplier_half_even:
  "(nearest_half_even (dec_value (Finite s c e) * 10) r \<longrightarrow>
      quantizeMultiplier (Finite s c e) =
        (if \<bar>r\<bar> < 10 ^ 28 then Inr (Finite s (nat \<bar>r\<bar>) (- 1)) else Inl InvalidOperation) \<and>
      dec_value (Finite s (nat \<bar>r\<bar>) (- 1)) = of_int r / 10) \<and>
   (\<exists>r. nearest_half_even (dec_value (Finite s c e) * 10) r) \<and>
   quantizeMultiplier (Finite False 10004 (- 2)) = Inr (Finite False 1000 (- 1)) \<and>
   quantizeMultiplier (Finite False 10005 (- 2)) = Inr (Finite False 1000 (- 1))"
proof -
  have x: "Etiny \<le> - 1" "(- 1 :: int) \<le> 0" by (simp_all add: Etiny_def Emin_def prec_def)
  have main: "quantizeMultiplier (Finite s c e) =
        (if \<bar>r\<bar> < 10 ^ 28 then Inr (Finite s (nat \<bar>r\<bar>) (- 1)) else Inl InvalidOperation) \<and>
      dec_value (Finite s (nat \<bar>r\<bar>) (- 1)) = of_int r / 10"
    if "nearest_half_even (dec_value (Finite s c e) * 10) r"
  proof -
    from that have r: "nearest_half_even (dec_value (Finite s c e) * 10 powi (- (- 1))) r"
      by simp
    from quantize_nearest [OF x r] nearest_result_value [OF r] show ?thesis
      by (simp add: quantizeMultiplier_def multiplierQuantization_def prec_def)
  qed
  have ex: "\<exists>r. nearest_half_even (dec_value (Finite s c e) * 10) r"
    using scaled_value_nearest [of s c e "- 1"] by auto
  have e1: "quantizeMultiplier (Finite False 10004 (- 2)) = Inr (Finite False 1000 (- 1))"
    by (simp add: decimal_eval)
  have e2: "quantizeMultiplier (Finite False 10005 (- 2)) = Inr (Finite False 1000 (- 1))"
    by (simp add: decimal_eval)
  from main ex e1 e2 show ?thesis by blast
qed

theorem quantizeMultiplier_half_even_witness:
  "nearest_half_even (dec_value (Finite False 10015 (- 2)) * 10) 1002 \<and>
   quantizeMultiplier (Finite False 10015 (- 2)) = Inr (Finite False 1002 (- 1)) \<and>
   dec_value (Finite False 1002 (- 1)) = 1002 / 10"
proof -
  have n: "nearest_half_even (dec_value (Finite False 10015 (- 2)) * 10) 1002"
    by (simp add: nearest_half_even_def dec_value_def)
  with quantizeMultiplier_half_even [of False 10015 "- 2" 1002] show ?thesis by simp
qed

section \<open>Constructing an option\<close>

lemma ndigits_times_10: "0 < c \<Longrightarrow> ndigits (c * 10) = Suc (ndigits c)"
  by (simp add: ndigits.simps [of "c * 10"])

lemma ndigits_times_1000: "0 < c \<Longrightarrow> ndigits (c * 1000) = ndigits c + 3"
proof -
  assume c: "0 < c"
  have "c * 1000 = c * 10 * 10 * 10" by simp
  with c show ?thesis by (simp only: ndigits_times_10)
qed

lemma fix_finite_ok:
  assumes "int (ndigits c) + e \<le> int prec"
  shows "\<exists>p. fix_finite s c e = Inr p"
proof -
  from assms have a: "int (ndigits c) + e - int prec \<le> 0" by simp
  then have b: "max (int (ndigits c) + e - int prec) Etiny \<le> 0"
    by (simp add: Etiny_def Emin_def prec_def)
  have top: "1 \<le> Etop" by (simp add: Etop_def Emax_def prec_def)
  from a b top show ?thesis
    by (auto simp: fix_finite_def Let_def)
qed

lemma quantizeStrike_Inr_digits:
  assumes "0 < c" and "quantizeStrike (Finite s c e) = Inr qk"
  shows "int (ndigits c) + e + 3 \<le> int prec"
  using assms
  by (auto simp: quantizeStrike_def strikeQuantization_def quantize_def adjusted_def
      split: if_splits)

lemma mul_1000_ok:
  assumes c: "0 < c" and q: "quantizeStrike (Finite s c e) = Inr qk"
  shows "\<exists>p. mul (Finite s c e) (Decimal_of_nat 1000) = Inr p"
proof -
  from quantizeStrike_Inr_digits [OF c q] ndigits_times_1000 [OF c]
  have "int (ndigits (c * 1000)) + (e + 0) \<le> int prec" by simp
  from fix_finite_ok [OF this] show ?thesis
    by (simp add: mul_def Decimal_of_nat_def)
qed

lemma OCC_symbol_ok:
  assumes "mul k (Decimal_of_nat 1000) = Inr p"
  shows "OCC_symbol u d t k =
    Inr (ljust 6 u @ strftime_ymd d @ [OptionType_value t] @ format_08_0f p)"
  using assms by (simp add: OCC_symbol_def)

lemma Option_init_as_ok:
  assumes "u \<noteq> []" and "0 < c" and "quantizeStrike (Finite s c e) = Inr qk" and "\<not> s"
    and "is_finite m" and "\<not> le_zero m" and "quantizeMultiplier m = Inr qm"
    and "symb \<noteq> Some []"
  shows "\<exists>sy. sy \<noteq> [] \<and>
    Option_init_as cls u (Some cu) t d (Finite s c e) m symb = Inr (cls sy cu u t d qk qm)"
proof (cases symb)
  case None
  from mul_1000_ok [OF assms(2,3)] obtain p
    where "mul (Finite s c e) (Decimal_of_nat 1000) = Inr p" by blast
  from OCC_symbol_ok [OF this, of u d t] assms None
  have "Option_init_as cls u (Some cu) t d (Finite s c e) m symb =
      Inr (cls (ljust 6 u @ strftime_ymd d @ [OptionType_value t] @ format_08_0f p)
        cu u t d qk qm)"
    by (simp add: Option_init_as_def Instrument_post_init_def is_finite_def le_zero_def)
  then show ?thesis
    by (intro exI [of _ "ljust 6 u @ strftime_ymd d @ [OptionType_value t] @ format_08_0f p"])
      simp
next
  case (Some sy)
  with assms
  have "Option_init_as cls u (Some cu) t d (Finite s c e) m symb =
      Inr (cls sy cu u t d qk qm)"
    by (simp add: Option_init_as_def Instrument_post_init_def is_finite_def le_zero_def)
  with Some assms(8) show ?thesis
    by (intro exI [of _ sy]) simp
qed

text \<open>
  Claim C5, as stated, has construction succeed for every finite strike above zero. The
  strike \<open>1E+25\<close> is finite and positive, and quantizing it to thousandths would need 29
  digits: construction fails with \<^verbatim>\<open>InvalidOperation\<close>.
\<close>

theorem Option_large_strike_counterexample:
  "is_finite (Finite False 1 25) \<and> \<not> le_zero (Finite False 1 25) \<and>
   Option_init ''AAPL'' (Some USD) PUT \<lparr>year = 2021, month = 1, day = 15\<rparr>
     (Finite False 1 25) default_multiplier None = Inl InvalidOperation"
  by (simp add: init_eval decimal_eval)

text \<open>
  Claim C5, amended. With a non-empty underlying, a strike that is not finite or not
  above zero is refused with the error for the strike. For a finite strike above zero,
  let \<open>r\<close> be 1000 times the strike rounded to the nearest integer, halves to the even
  one. With otherwise valid inputs (a finite positive multiplier that can be quantized, a
  present currency, no symbol or a non-empty one), construction succeeds when \<open>r\<close> has at
  most 28 digits, and the stored strike is \<open>r / 1000\<close> with exponent \<open>-3\<close>; when \<open>r\<close> has
  more, construction fails with \<^verbatim>\<open>InvalidOperation\<close>.
\<close>

theorem Option_strike_validation:
  "(u \<noteq> [] \<and> (\<not> is_finite k \<or> le_zero k) \<longrightarrow>
      Option_init u cur t d k m symb = Inl (ValueError (Expected_positive_strike k))) \<and>
   (u \<noteq> [] \<and> 0 < c \<and> is_finite m \<and> \<not> le_zero m \<and> quantizeMultiplier m = Inr qm \<and>
    symb \<noteq> Some [] \<and> nearest_half_even (dec_value (Finite False c e) * 1000) r \<longrightarrow>
      (r < 10 ^ 28 \<longrightarrow>
         (\<exists>opt. Option_init u (Some cu) t d (Finite False c e) m symb = Inr opt \<and>
            strike opt = Finite False (nat r) (- 3) \<and>
            dec_value (strike opt) = of_int r / 1000)) \<and>
      (10 ^ 28 \<le> r \<longrightarrow>
         Option_init u cur t d (Finite False c e) m symb = Inl InvalidOperation))"
proof -
  have bad: "Option_init u cur t d k m symb = Inl (ValueError (Expected_positive_strike k))"
    if "u \<noteq> []" "\<not> is_finite k \<or> le_zero k"
    using that by (auto simp: Option_init_def Option_init_as_def)
  have x: "Etiny \<le> - 3" "(- 3 :: int) \<le> 0" by (simp_all add: Etiny_def Emin_def prec_def)
  have good: "(r < 10 ^ 28 \<longrightarrow>
         (\<exists>opt. Option_init u (Some cu) t d (Finite False c e) m symb = Inr opt \<and>
            strike opt = Finite False (nat r) (- 3) \<and>
            dec_value (strike opt) = of_int r / 1000)) \<and>
      (10 ^ 28 \<le> r \<longrightarrow>
         Option_init u cur t d (Finite False c e) m symb = Inl InvalidOperation)"
    if u: "u \<noteq> []" and c: "0 < c" and m: "is_finite m" "\<not> le_zero m"
      and qm: "quantizeMultiplier m = Inr qm" and sy: "symb \<noteq> Some []"
      and near: "nearest_half_even (dec_value (Finite False c e) * 1000) r"
  proof -
    from near have r: "nearest_half_even (dec_value (Finite False c e) * 10 powi (- (- 3))) r"
      by simp
    from nearest_half_even_sign [OF r] dec_value_sign [of False c e "- (- 3)"]
    have r0: "0 \<le> r" by blast
    from quantize_nearest [OF x r] r0
    have q: "quantizeStrike (Finite False c e) =
        (if r < 10 ^ 28 then Inr (Finite False (nat r) (- 3)) else Inl InvalidOperation)"
      by (simp add: quantizeStrike_def strikeQuantization_def prec_def)
    from nearest_result_value [OF r] r0
    have v: "dec_value (Finite False (nat r) (- 3)) = of_int r / 1000" by simp
    have small: "\<exists>opt. Option_init u (Some cu) t d (Finite False c e) m symb = Inr opt \<and>
            strike opt = Finite False (nat r) (- 3) \<and>
            dec_value (strike opt) = of_int r / 1000" if "r < 10 ^ 28"
    proof -
      from q that have "quantizeStrike (Finite False c e) = Inr (Finite False (nat r) (- 3))"
        by simp
      from Option_init_as_ok [OF u c this _ m qm sy, of Option cu t d]
      obtain s where "Option_init u (Some cu) t d (Finite False c e) m symb =
          Inr (Option s cu u t d (Finite False (nat r) (- 3)) qm)"
        by (auto simp: Option_init_def)
      with v show ?thesis by simp
    qed
    have large: "Option_init u cur t d (Finite False c e) m symb = Inl InvalidOperation"
      if "10 ^ 28 \<le> r"
    proof -
      from q that have "quantizeStrike (Finite False c e) = Inl InvalidOperation" by simp
      with u c m show ?thesis
        by (simp add: Option_init_def Option_init_as_def is_finite_def le_zero_def)
    qed
    from small large show ?thesis by blast
  qed
  from bad good show ?thesis by blast
qed

theorem Option_strike_validation_witness:
  "nearest_half_even (dec_value (Finite False 1500005 (- 4)) * 1000) 150000 \<and>
   (\<exists>opt. Option_init ''AAPL'' (Some USD) PUT \<lparr>year = 2021, month = 1, day = 15\<rparr>
        (Finite False 1500005 (- 4)) default_multiplier None = Inr opt \<and>
      strike opt = Finite False 150000 (- 3) \<and> dec_value (strike opt) = 150000 / 1000) \<and>
   Option_init ''AAPL'' (Some USD) PUT \<lparr>year = 2021, month = 1, day = 15\<rparr>
     (Finite True 1 0) default_multiplier None =
   Inl (ValueError (Expected_positive_strike (Finite True 1 0)))"
proof -
  have n: "nearest_half_even (dec_value (Finite False 1500005 (- 4)) * 1000) 150000"
    by (simp add: nearest_half_even_def dec_value_def)
  have qm: "quantizeMultiplier default_multiplier = Inr (Finite False 1000 (- 1))"
    by (simp add: decimal_eval)
  have m: "is_finite default_multiplier" "\<not> le_zero default_multiplier"
    by (simp_all add: decimal_eval)
  from n qm m
    Option_strike_validation [of "''AAPL''" "Finite True 1 0" "Some USD" PUT
      "\<lparr>year = 2021, month = 1, day = 15\<rparr>" default_multiplier None 1500005
      "Finite False 1000 (- 1)" "- 4" 150000 USD]
  show ?thesis by (simp add: is_finite_def le_zero_def)
qed

section \<open>The derived symbol of an option\<close>

lemma round_half_even_scale: "round_half_even (c * 10 ^ j) (k + j) = round_half_even c k"
proof -
  have d: "c * 10 ^ j div 10 ^ (k + j) = c div 10 ^ k"
    by (simp add: power_add)
  have m: "c * 10 ^ j mod 10 ^ (k + j) = (c mod 10 ^ k) * 10 ^ j"
    by (simp add: power_add mult_mod_left)
  have lt: "(10::nat) ^ (k + j) < 2 * ((c mod 10 ^ k) * 10 ^ j) \<longleftrightarrow>
      10 ^ k < 2 * (c mod 10 ^ k)"
    by (simp add: power_add flip: mult.assoc)
  have eq: "2 * ((c mod 10 ^ k) * 10 ^ j) = (10::nat) ^ (k + j) \<longleftrightarrow>
      2 * (c mod 10 ^ k) = 10 ^ k"
    by (simp add: power_add flip: mult.assoc)
  show ?thesis
    unfolding round_half_even_def Let_def d m lt eq ..
qed

lemma round_half_even_exact: "round_half_even (c * 10 ^ k) k = c"
  using round_half_even_scale [of c k 0] by (simp add: round_half_even_def)

lemma rescale_times_1000:
  assumes c: "0 < c"
  shows "coefficient (rescale s (c * 1000) e 0) = coefficient (rescale s c e (- 3))"
proof -
  consider "0 \<le> e" | "- 3 \<le> e" "e < 0" | "e < - 3" by linarith
  then show ?thesis
  proof cases
    case 1
    then have "nat (e + 3) = nat e + 3" by simp
    with 1 c show ?thesis by (simp add: rescale_def power_add)
  next
    case 2
    define k where "k = nat (- e)"
    define j where "j = nat (e + 3)"
    from 2 have kj: "k + j = 3" "0 < k" by (simp_all add: k_def j_def)
    then have "(1000::nat) = 10 ^ j * 10 ^ k"
      by (simp add: numeral_eq_Suc flip: power_add) (simp add: add.commute)
    then have "c * 1000 = c * 10 ^ j * 10 ^ k" by simp
    then have "round_half_even (c * 1000) k = c * 10 ^ j"
      by (simp only: round_half_even_exact)
    with 2 c show ?thesis by (simp add: rescale_def k_def j_def)
  next
    case 3
    define k where "k = nat (- 3 - e)"
    from 3 have k: "nat (- e) = k + 3" by (simp add: k_def)
    have "round_half_even (c * 10 ^ 3) (k + 3) = round_half_even c k"
      by (rule round_half_even_scale)
    then have "round_half_even (c * 1000) (nat (- e)) = round_half_even c k"
      by (simp add: k)
    with 3 c show ?thesis by (simp add: rescale_def k_def)
  qed
qed

lemma mul_1000_exact:
  assumes c: "c < 10 ^ 25" and e: "Etiny \<le> e" and d: "int (ndigits c) + e + 3 \<le> int prec"
  shows "mul (Finite s c e) (Decimal_of_nat 1000) = Inr (Finite s (c * 1000) e)"
proof -
  from c have n: "c * 1000 < 10 ^ prec" by (simp add: prec_def)
  from d ndigits_pos [of c] have "e \<le> Etop" by (simp add: Etop_def Emax_def prec_def)
  from fix_finite_id [OF n e this] show ?thesis
    by (simp add: mul_def Decimal_of_nat_def)
qed

lemma length_zfill: "length (zfill w s) = max w (length s)"
  by (simp add: zfill_def)

lemma length_ljust: "length (ljust w s) = max w (length s)"
  by (simp add: ljust_def)

lemma length_zfill_2_str_nat: "n < 100 \<Longrightarrow> length (zfill 2 (str_nat n)) = 2"
proof -
  assume "n < 100"
  then have "n < 10 ^ 2" by simp
  with ndigits_le_iff [of 2 n] have "ndigits n \<le> 2" by simp
  then show ?thesis by (simp add: length_zfill length_str_nat)
qed

lemma days_in_month_le: "days_in_month y m \<le> 31"
  by (simp add: days_in_month_def)

lemma length_strftime_ymd: "valid_date d \<Longrightarrow> length (strftime_ymd d) = 6"
proof -
  assume v: "valid_date d"
  then have "month d < 100" by (simp add: valid_date_def)
  moreover from v days_in_month_le [of "year d" "month d"] have "day d < 100"
    by (simp add: valid_date_def)
  moreover have "year d mod 100 < 100" by simp
  ultimately show ?thesis
    by (simp add: strftime_ymd_def length_zfill_2_str_nat)
qed

lemma ljust_take:
  "length u \<le> 6 \<Longrightarrow> take 6 (u @ replicate 6 (CHR '' '')) = ljust 6 u"
  by (simp add: ljust_def min_def del: replicate_numeral_unfold)

lemma thousandths_value: "dec_value (Finite False n (- 3)) * 1000 = of_nat n"
  by (simp add: dec_value_def)

text \<open>
  Claim C1, as stated, has the underlying cut to exactly 6 characters. The format
  specification \<^verbatim>\<open>{underlying:6}\<close> only pads: an underlying of 7 characters stays whole and
  the symbol has 22 characters.
\<close>

theorem Option_symbol_long_underlying_counterexample:
  "Option_init ''GOOGLEX'' (Some USD) PUT \<lparr>year = 2021, month = 1, day = 15\<rparr>
     (Finite False 15000 (- 2)) default_multiplier None =
   Inr (Option ''GOOGLEX210115P00150000'' USD ''GOOGLEX'' PUT
     \<lparr>year = 2021, month = 1, day = 15\<rparr> (Finite False 150000 (- 3)) (Finite False 1000 (- 1))) \<and>
   spec_symbol ''GOOGLEX'' \<lparr>year = 2021, month = 1, day = 15\<rparr> PUT (Finite False 150000 (- 3)) =
     ''GOOGLE210115P00150000'' \<and>
   ''GOOGLEX210115P00150000'' \<noteq> ''GOOGLE210115P00150000'' \<and>
   length ''GOOGLEX210115P00150000'' = 22"
  by (simp add: init_eval decimal_eval format_eval spec_symbol_def dec_value_def)

text \<open>
  Claim C1, amended. The symbol derived for an option is the underlying padded with
  spaces on the right to at least 6 characters, the expiration as YYMMDD, P or C, and the
  product of the strike as passed and 1000, taken in the context and printed as an
  integer of at least 8 digits. When the underlying has at most 6 characters, the strike
  has at most 25 digits and an exponent not below \<open>Etiny\<close>, and the stored strike is
  below 100000, this is the symbol of the specification, built from the stored
  (quantized) strike, and for a calendar date it has 21 characters. The specification's
  example yields \<^verbatim>\<open>AAPL  210115P00150000\<close>.
\<close>

theorem Option_derived_symbol:
  "(Option_init u cur t d (Finite s c e) m None = Inr opt \<longrightarrow>
      (\<exists>p. mul (Finite s c e) (Decimal_of_nat 1000) = Inr p \<and>
         symbol opt = ljust 6 u @ strftime_ymd d @ [OptionType_value t] @ format_08_0f p) \<and>
      (length u \<le> 6 \<and> c < 10 ^ 25 \<and> Etiny \<le> e \<and> dec_value (strike opt) < 100000 \<longrightarrow>
         symbol opt = spec_symbol u d t (strike opt) \<and>
         (valid_date d \<longrightarrow> length (symbol opt) = 21))) \<and>
   (\<exists>opt. Option_init ''AAPL'' (Some USD) PUT \<lparr>year = 2021, month = 1, day = 15\<rparr>
        (Finite False 15000 (- 2)) default_multiplier None = Inr opt \<and>
      symbol opt = ''AAPL  210115P00150000'')"
proof -
  have general: "(\<exists>p. mul (Finite s c e) (Decimal_of_nat 1000) = Inr p \<and>
         symbol opt = ljust 6 u @ strftime_ymd d @ [OptionType_value t] @ format_08_0f p) \<and>
      (length u \<le> 6 \<and> c < 10 ^ 25 \<and> Etiny \<le> e \<and> dec_value (strike opt) < 100000 \<longrightarrow>
         symbol opt = spec_symbol u d t (strike opt) \<and>
         (valid_date d \<longrightarrow> length (symbol opt) = 21))"
    if init: "Option_init u cur t d (Finite s c e) m None = Inr opt"
  proof -
    from init [unfolded Option_init_def, THEN Option_init_as_Inr]
    obtain qk qm sy cu where pos: "\<not> le_zero (Finite s c e)"
      and qk: "quantizeStrike (Finite s c e) = Inr qk"
      and occ: "OCC_symbol u d t (Finite s c e) = Inr sy"
      and opt: "opt = Option sy cu u t d qk qm"
      by auto
    from pos have s: "\<not> s" and c: "0 < c" by (simp_all add: le_zero_def)
    from occ obtain p where p: "mul (Finite s c e) (Decimal_of_nat 1000) = Inr p"
      and sy: "sy = ljust 6 u @ strftime_ymd d @ [OptionType_value t] @ format_08_0f p"
      by (auto simp: OCC_symbol_def split: sum.splits)
    define n where "n = coefficient (rescale s c e (- 3))"
    have x: "Etiny \<le> - 3" "(- 3 :: int) \<le> 0" by (simp_all add: Etiny_def Emin_def prec_def)
    from qk quantize_Finite [OF x, of s c e False 1] have qk_eq: "qk = Finite s n (- 3)"
      unfolding n_def quantizeStrike_def strikeQuantization_def
      by (simp add: rescale_Finite [symmetric] split: if_splits)
    have first: "\<exists>p. mul (Finite s c e) (Decimal_of_nat 1000) = Inr p \<and>
         symbol opt = ljust 6 u @ strftime_ymd d @ [OptionType_value t] @ format_08_0f p"
      using p sy opt by simp
    have second: "symbol opt = spec_symbol u d t (strike opt) \<and>
         (valid_date d \<longrightarrow> length (symbol opt) = 21)"
      if u: "length u \<le> 6" and c25: "c < 10 ^ 25" and e: "Etiny \<le> e"
        and small: "dec_value (strike opt) < 100000"
    proof -
      from mul_1000_exact [OF c25 e quantizeStrike_Inr_digits [OF c qk], of s] p
      have p_eq: "p = Finite s (c * 1000) e" by simp
      have fmt: "format_08_0f p = zfill 8 (str_nat n)"
        using s rescale_times_1000 [OF c, of s e]
        by (simp add: p_eq format_08_0f_def sign_str_def n_def)
      from s have val: "dec_value (strike opt) * 1000 = of_nat n"
        by (simp add: opt qk_eq thousandths_value)
      then have fl: "nat \<lfloor>dec_value (strike opt) * 1000\<rfloor> = n" by simp
      have sym: "symbol opt = spec_symbol u d t (strike opt)"
        unfolding spec_symbol_def fl ljust_take [OF u]
        by (simp add: opt sy fmt)
      from small val have "(of_nat n :: rat) < 100000 * 1000" by linarith
      then have "(of_nat n :: rat) < of_nat (10 ^ 8)" by simp
      then have "n < 10 ^ 8" by (simp only: of_nat_less_iff)
      with ndigits_le_iff [of 8 n] have "ndigits n \<le> 8" by simp
      then have l8: "length (zfill 8 (str_nat n)) = 8"
        by (simp add: length_zfill length_str_nat)
      from u have l6: "length (ljust 6 u) = 6" by (simp add: length_ljust)
      have "length (symbol opt) = 21" if "valid_date d"
        using length_strftime_ymd [OF that] l6 l8 by (simp add: opt sy fmt)
      with sym show ?thesis by blast
    qed
    from first second show ?thesis by blast
  qed
  have example: "\<exists>opt. Option_init ''AAPL'' (Some USD) PUT \<lparr>year = 2021, month = 1, day = 15\<rparr>
        (Finite False 15000 (- 2)) default_multiplier None = Inr opt \<and>
      symbol opt = ''AAPL  210115P00150000''"
    using AAPL_example by simp
  from general example show ?thesis by blast
qed

theorem Option_derived_symbol_witness:
  "Option_init ''AAPL'' (Some USD) PUT \<lparr>year = 2021, month = 1, day = 15\<rparr>
     (Finite False 15000 (- 2)) default_multiplier None =
   Inr (Option ''AAPL  210115P00150000'' USD ''AAPL'' PUT \<lparr>year = 2021, month = 1, day = 15\<rparr>
     (Finite False 150000 (- 3)) (Finite False 1000 (- 1))) \<and>
   valid_date \<lparr>year = 2021, month = 1, day = 15\<rparr> \<and>
   ''AAPL  210115P00150000'' =
     spec_symbol ''AAPL'' \<lparr>year = 2021, month = 1, day = 15\<rparr> PUT (Finite False 150000 (- 3)) \<and>
   length ''AAPL  210115P00150000'' = 21"
proof -
  define opt where "opt = Option ''AAPL  210115P00150000'' USD ''AAPL'' PUT
    \<lparr>year = 2021, month = 1, day = 15\<rparr> (Finite False 150000 (- 3)) (Finite False 1000 (- 1))"
  have init: "Option_init ''AAPL'' (Some USD) PUT \<lparr>year = 2021, month = 1, day = 15\<rparr>
     (Finite False 15000 (- 2)) default_multiplier None = Inr opt"
    unfolding opt_def by (rule AAPL_example)
  have v: "valid_date \<lparr>year = 2021, month = 1, day = 15\<rparr>"
    by (simp add: valid_date_def days_in_month_def)
  have h: "length ''AAPL'' \<le> 6 \<and> (15000::nat) < 10 ^ 25 \<and> Etiny \<le> - 2 \<and>
      dec_value (strike opt) < 100000"
    by (simp add: opt_def Etiny_def Emin_def prec_def dec_value_def)
  from init h v
    Option_derived_symbol [of "''AAPL''" "Some USD" PUT "\<lparr>year = 2021, month = 1, day = 15\<rparr>"
      False 15000 "- 2" default_multiplier opt]
  have "symbol opt = spec_symbol ''AAPL'' \<lparr>year = 2021, month = 1, day = 15\<rparr> PUT (strike opt)"
    and "length (symbol opt) = 21"
    by blast+
  then have "''AAPL  210115P00150000'' =
     spec_symbol ''AAPL'' \<lparr>year = 2021, month = 1, day = 15\<rparr> PUT (Finite False 150000 (- 3))"
    and "length ''AAPL  210115P00150000'' = 21"
    by (simp_all add: opt_def)
  with init v show ?thesis unfolding opt_def by blast
qed

section \<open>Stocks, and the base checks in every constructor\<close>

lemma positive_Finite:
  assumes "is_finite k" and "\<not> le_zero k"
  obtains c e where "k = Finite False c e" and "0 < c"
  using assms by (cases k) (auto simp: is_finite_def le_zero_def)

lemma Option_init_as_fails:
  assumes "symb = Some [] \<or> cur = None"
  shows "(\<exists>msg. Option_init_as cls u cur t d k m symb = Inl (ValueError msg)) \<or>
    (Option_init_as cls u cur t d k m symb = Inl InvalidOperation \<and>
     (quantizeStrike k = Inl InvalidOperation \<or> quantizeMultiplier m = Inl InvalidOperation))"
proof (cases "u = [] \<or> \<not> is_finite k \<or> le_zero k \<or> \<not> is_finite m \<or> le_zero m")
  case True
  then show ?thesis by (auto simp: Option_init_as_def)
next
  case False
  then have u: "u \<noteq> []" and k: "is_finite k" "\<not> le_zero k"
    and m: "is_finite m" "\<not> le_zero m" by auto
  from k obtain c e where ke: "k = Finite False c e" and c: "0 < c"
    by (rule positive_Finite)
  have x3: "Etiny \<le> - 3" "(- 3 :: int) \<le> 0" by (simp_all add: Etiny_def Emin_def prec_def)
  have x1: "Etiny \<le> - 1" "(- 1 :: int) \<le> 0" by (simp_all add: Etiny_def Emin_def prec_def)
  from m obtain c' e' where me: "m = Finite False c' e'"
    by (rule positive_Finite)
  from quantize_Finite [OF x3, of False c e False 1]
  have qk: "quantizeStrike k = Inl InvalidOperation \<or> (\<exists>qk. quantizeStrike k = Inr qk)"
    by (simp add: ke quantizeStrike_def strikeQuantization_def)
  from quantize_Finite [OF x1, of False c' e' False 1]
  have qm: "quantizeMultiplier m = Inl InvalidOperation \<or> (\<exists>qm. quantizeMultiplier m = Inr qm)"
    by (simp add: me quantizeMultiplier_def multiplierQuantization_def)
  show ?thesis
  proof (cases "quantizeStrike k = Inl InvalidOperation \<or>
      quantizeMultiplier m = Inl InvalidOperation")
    case True
    with u k m qk show ?thesis
      by (auto simp: Option_init_as_def)
  next
    case False
    with qk qm obtain qk' qm' where q: "quantizeStrike k = Inr qk'"
      "quantizeMultiplier m = Inr qm'" by blast
    from mul_1000_ok [OF c q(1) [unfolded ke]] obtain p
      where "mul k (Decimal_of_nat 1000) = Inr p" unfolding ke by blast
    from OCC_symbol_ok [OF this, of u d t] u k m q assms show ?thesis
      by (auto simp: Option_init_as_def Instrument_post_init_def split: option.splits)
  qed
qed

lemma Future_init_fails:
  assumes "symb = [] \<or> cur = None"
  shows "(\<exists>msg. Future_init symb cur m d = Inl (ValueError msg)) \<or>
    (Future_init symb cur m d = Inl InvalidOperation \<and>
     quantizeMultiplier m = Inl InvalidOperation)"
proof (cases "\<not> is_finite m \<or> le_zero m")
  case True
  then show ?thesis by (auto simp: Future_init_def)
next
  case False
  then have m: "is_finite m" "\<not> le_zero m" by auto
  then obtain c e where me: "m = Finite False c e"
    by (rule positive_Finite)
  have x1: "Etiny \<le> - 1" "(- 1 :: int) \<le> 0" by (simp_all add: Etiny_def Emin_def prec_def)
  from quantize_Finite [OF x1, of False c e False 1]
  have "quantizeMultiplier m = Inl InvalidOperation \<or> (\<exists>qm. quantizeMultiplier m = Inr qm)"
    by (simp add: me quantizeMultiplier_def multiplierQuantization_def)
  moreover from Instrument_post_init_fails [OF assms] obtain msg
    where "Instrument_post_init symb cur = Inl (ValueError msg)" by blast
  ultimately show ?thesis using m
    by (auto simp: Future_init_def)
qed

text \<open>
  Claim C9, as stated, has every constructor answer an empty symbol with a validation
  error. \<^verbatim>\<open>Future\<close> quantizes its multiplier before the base class looks at the symbol: with
  an empty symbol and the multiplier \<open>1E+27\<close>, which is finite and positive, construction
  fails with \<^verbatim>\<open>InvalidOperation\<close>, which is not a \<^verbatim>\<open>ValueError\<close>.
\<close>

theorem Future_empty_symbol_counterexample:
  "is_finite (Finite False 1 27) \<and> \<not> le_zero (Finite False 1 27) \<and>
   Future_init '''' (Some USD) (Finite False 1 27) \<lparr>year = 2021, month = 12, day = 17\<rparr> =
     Inl InvalidOperation \<and>
   InvalidOperation \<noteq> ValueError Expected_nonempty_symbol"
  by (simp add: init_eval decimal_eval)

text \<open>
  Claim C9, amended. A stock with a non-empty symbol and a present currency is
  constructed, prints as its symbol and has the multiplier 1. With an empty symbol or an
  absent currency no constructor returns an instance: \<^verbatim>\<open>Stock\<close> and \<^verbatim>\<open>Bond\<close> raise a
  \<^verbatim>\<open>ValueError\<close>; \<^verbatim>\<open>Option\<close>, \<^verbatim>\<open>FutureOption\<close> and \<^verbatim>\<open>Future\<close> raise a \<^verbatim>\<open>ValueError\<close> unless
  quantizing the strike or the multiplier raises \<^verbatim>\<open>InvalidOperation\<close> first; \<^verbatim>\<open>Forex\<close>, which
  takes no symbol, raises a \<^verbatim>\<open>ValueError\<close> when both currencies are absent and an
  \<^verbatim>\<open>AttributeError\<close> when one is.
\<close>

theorem Instrument_base_checks:
  "(symb \<noteq> [] \<longrightarrow>
      Stock_init symb (Some c) = Inr (Stock symb c) \<and>
      Instrument_str (Stock symb c) = symb \<and>
      multiplier (Stock symb c) = Decimal_of_nat 1) \<and>
   (symb = [] \<or> cur = None \<longrightarrow>
      (\<exists>msg. Stock_init symb cur = Inl (ValueError msg)) \<and>
      (\<exists>msg. Bond_init symb cur v = Inl (ValueError msg)) \<and>
      ((\<exists>msg. Option_init u cur t d k m (Some symb) = Inl (ValueError msg)) \<or>
       (Option_init u cur t d k m (Some symb) = Inl InvalidOperation \<and>
        (quantizeStrike k = Inl InvalidOperation \<or>
         quantizeMultiplier m = Inl InvalidOperation))) \<and>
      ((\<exists>msg. FutureOption_init symb u cur t d k m = Inl (ValueError msg)) \<or>
       (FutureOption_init symb u cur t d k m = Inl InvalidOperation \<and>
        (quantizeStrike k = Inl InvalidOperation \<or>
         quantizeMultiplier m = Inl InvalidOperation))) \<and>
      ((\<exists>msg. Future_init symb cur m d = Inl (ValueError msg)) \<or>
       (Future_init symb cur m d = Inl InvalidOperation \<and>
        quantizeMultiplier m = Inl InvalidOperation))) \<and>
   (cur = None \<longrightarrow>
      (\<exists>msg. Option_init u cur t d k m None = Inl (ValueError msg)) \<or>
      (Option_init u cur t d k m None = Inl InvalidOperation \<and>
       (quantizeStrike k = Inl InvalidOperation \<or>
        quantizeMultiplier m = Inl InvalidOperation))) \<and>
   (base = None \<or> quote = None \<longrightarrow>
      (base = None \<and> quote = None \<and>
       Forex_init base quote = Inl (ValueError (Forex_different_currencies base quote))) \<or>
      (base \<noteq> quote \<and> Forex_init base quote = Inl AttributeError))"
proof -
  have stock_ok: "symb \<noteq> [] \<longrightarrow>
      Stock_init symb (Some c) = Inr (Stock symb c) \<and>
      Instrument_str (Stock symb c) = symb \<and>
      multiplier (Stock symb c) = Decimal_of_nat 1"
    by (simp add: Stock_init_def Instrument_post_init_def Instrument_str_def)
  have stock: "\<exists>msg. Stock_init symb cur = Inl (ValueError msg)"
    if "symb = [] \<or> cur = None"
    using Instrument_post_init_fails [OF that] by (auto simp: Stock_init_def)
  have bond: "\<exists>msg. Bond_init symb cur v = Inl (ValueError msg)"
    if "symb = [] \<or> cur = None"
    using Instrument_post_init_fails [OF that] by (auto simp: Bond_init_def)
  have opt: "(\<exists>msg. Option_init u cur t d k m (Some symb) = Inl (ValueError msg)) \<or>
       (Option_init u cur t d k m (Some symb) = Inl InvalidOperation \<and>
        (quantizeStrike k = Inl InvalidOperation \<or>
         quantizeMultiplier m = Inl InvalidOperation))"
    if "symb = [] \<or> cur = None"
    unfolding Option_init_def using that by (intro Option_init_as_fails) simp
  have fopt: "(\<exists>msg. FutureOption_init symb u cur t d k m = Inl (ValueError msg)) \<or>
       (FutureOption_init symb u cur t d k m = Inl InvalidOperation \<and>
        (quantizeStrike k = Inl InvalidOperation \<or>
         quantizeMultiplier m = Inl InvalidOperation))"
    if "symb = [] \<or> cur = None"
    unfolding FutureOption_init_def using that by (intro Option_init_as_fails) simp
  have fut: "(\<exists>msg. Future_init symb cur m d = Inl (ValueError msg)) \<or>
       (Future_init symb cur m d = Inl InvalidOperation \<and>
        quantizeMultiplier m = Inl InvalidOperation)"
    if "symb = [] \<or> cur = None"
    using that by (rule Future_init_fails)
  have derived: "(\<exists>msg. Option_init u cur t d k m None = Inl (ValueError msg)) \<or>
      (Option_init u cur t d k m None = Inl InvalidOperation \<and>
       (quantizeStrike k = Inl InvalidOperation \<or>
        quantizeMultiplier m = Inl InvalidOperation))"
    if "cur = None"
    unfolding Option_init_def using that by (intro Option_init_as_fails) simp
  have forex: "(base = None \<and> quote = None \<and>
       Forex_init base quote = Inl (ValueError (Forex_different_currencies base quote))) \<or>
      (base \<noteq> quote \<and> Forex_init base quote = Inl AttributeError)"
    if "base = None \<or> quote = None"
    using that by (auto simp: Forex_init_def split: option.splits)
  from stock_ok stock bond opt fopt fut derived forex show ?thesis by blast
qed

theorem Instrument_base_checks_witness:
  "Stock_init ''AAPL'' (Some USD) = Inr (Stock ''AAPL'' USD) \<and>
   Instrument_str (Stock ''AAPL'' USD) = ''AAPL'' \<and>
   multiplier (Stock ''AAPL'' USD) = Decimal_of_nat 1 \<and>
   (\<exists>msg. Stock_init '''' (Some USD) = Inl (ValueError msg)) \<and>
   (\<exists>msg. Bond_init '''' (Some USD) True = Inl (ValueError msg)) \<and>
   Forex_init None (Some USD) = Inl AttributeError"
proof -
  have ne: "''AAPL'' \<noteq> []" by simp
  from Instrument_base_checks [of "''AAPL''" USD "Some USD" True "''X''" PUT
      "\<lparr>year = 2021, month = 12, day = 17\<rparr>" "Finite False 1 0" "Finite False 1 0"
      None "Some USD"] ne
  have a: "Stock_init ''AAPL'' (Some USD) = Inr (Stock ''AAPL'' USD) \<and>
      Instrument_str (Stock ''AAPL'' USD) = ''AAPL'' \<and>
      multiplier (Stock ''AAPL'' USD) = Decimal_of_nat 1 \<and>
      Forex_init None (Some USD) = Inl AttributeError"
    by simp
  from Instrument_base_checks [of "[]" USD "Some USD" True "''X''" PUT
      "\<lparr>year = 2021, month = 12, day = 17\<rparr>" "Finite False 1 0" "Finite False 1 0"
      None "Some USD"]
  have b: "(\<exists>msg. Stock_init '''' (Some USD) = Inl (ValueError msg)) \<and>
      (\<exists>msg. Bond_init '''' (Some USD) True = Inl (ValueError msg))"
    by simp
  from a b show ?thesis by blast
qed

end
